theory Spec2Isabelle
  imports Complex_Main
begin

section \<open>Errors and tensor shapes\<close>

text \<open>
  The architectures of \<^verbatim>\<open>model_builder.py\<close> are embedded at the level of tensor shapes:
  every \<^verbatim>\<open>forward\<close> becomes a function from the shape of its input to either the Python
  exception it raises (\<open>Inl\<close>) or the shape of the tensor it returns (\<open>Inr\<close>).  The
  source's \<^verbatim>\<open>__init__\<close> methods become functions that build a record of the layers the
  module owns.
\<close>

datatype error =
    NameError string
  | AttributeError string
  | TypeError string
  | ValueError string
  | RuntimeError string
  | Exception string

text \<open>
  A tensor is either an activation in channel-first layout (batch, channels, height, width)
  or a flattened (batch, features) matrix.
\<close>

datatype shape =
    NCHW nat nat nat nat
  | NF nat nat

definition and_then :: "error + 'a \<Rightarrow> ('a \<Rightarrow> error + 'b) \<Rightarrow> error + 'b" where
  "and_then r f = (case r of Inl e \<Rightarrow> Inl e | Inr v \<Rightarrow> f v)"

text \<open>Statements executed one after the other, each on the result of the one before.\<close>

fun chain :: "('a \<Rightarrow> error + 'a) list \<Rightarrow> 'a \<Rightarrow> error + 'a" where
  "chain [] x = Inr x"
| "chain (f # fs) x = and_then (f x) (chain fs)"

section \<open>Primitive layers of torch.nn\<close>

text \<open>
  \<open>Conv2d in_channels out_channels kernel_size stride padding groups\<close>,
  \<open>MaxPool2d kernel_size stride padding ceil_mode\<close>, \<open>Linear in_features out_features\<close>,
  \<open>BatchNorm2d num_features\<close>.  \<open>AdaptiveAvgPool2d\<close> is always used with output size 1 x 1.
  Arguments the source leaves out have the defaults of torch.nn:
  stride 1, padding 0, groups 1 for a convolution; padding 0 and floor mode for a pooling.
\<close>

datatype layer =
    Conv2d nat nat nat nat nat nat
  | BatchNorm2d nat
  | ReLU
  | ReLU6
  | Hswish
  | Hsigmoid
  | MaxPool2d nat nat nat bool
  | AdaptiveAvgPool2d
  | Dropout
  | Linear nat nat

text \<open>
  Output size of a convolution along one spatial dimension: the kernel must fit
  into the padded input, and then the size is \<open>floor ((n + 2 p - k) / s) + 1\<close>.
\<close>

definition conv_output_size :: "nat \<Rightarrow> nat \<Rightarrow> nat \<Rightarrow> nat \<Rightarrow> error + nat" where
  "conv_output_size n k s p =
     (if s = 0 then Inl (RuntimeError ''non-positive stride is not supported'')
      else if n + 2 * p < k then Inl (RuntimeError ''Kernel size cannot be greater than actual input size'')
      else Inr ((n + 2 * p - k) div s + 1))"

text \<open>
  Output size of a pooling window along one spatial dimension, as torch computes it:
  in ceil mode the quotient is rounded up, and the last window is dropped again when it
  would start beyond the input and its left padding.  The arithmetic is on integers,
  with division rounding towards minus infinity.
\<close>

definition pooling_output_shape :: "nat \<Rightarrow> nat \<Rightarrow> nat \<Rightarrow> nat \<Rightarrow> bool \<Rightarrow> int" where
  "pooling_output_shape n k s p ceil_mode =
     (let outputSize =
            (int n + 2 * int p - (int k - 1) - 1 + (if ceil_mode then int s - 1 else 0)) div int s + 1
      in if ceil_mode \<and> (outputSize - 1) * int s \<ge> int n + int p then outputSize - 1
         else outputSize)"

definition pool_output_size :: "nat \<Rightarrow> nat \<Rightarrow> nat \<Rightarrow> nat \<Rightarrow> bool \<Rightarrow> error + nat" where
  "pool_output_size n k s p ceil_mode =
     (if k = 0 \<or> s = 0 then Inl (RuntimeError ''kernel size and stride should be greater than zero'')
      else if k div 2 < p then Inl (RuntimeError ''pad should be at most half of effective kernel size'')
      else if n = 0 then Inl (RuntimeError ''Expected input with non-zero size for non-batch dimensions'')
      else if pooling_output_shape n k s p ceil_mode < 1 then Inl (RuntimeError ''Output size is too small'')
      else Inr (nat (pooling_output_shape n k s p ceil_mode)))"

text \<open>
  The shape a layer returns, or the exception it raises.  \<open>training\<close> is the mode flag of
  torch.nn.Module (True after construction, switched by \<^verbatim>\<open>train()\<close> and \<^verbatim>\<open>eval()\<close>):
  in training mode batch normalisation needs more than one value per channel.  A
  convolution needs at least one output channel per group, the input channels its weight
  was built for, and a kernel that fits into the padded input.
\<close>

fun layer_forward :: "bool \<Rightarrow> layer \<Rightarrow> shape \<Rightarrow> error + shape" where
  "layer_forward training (Conv2d cin cout k s p g) (NCHW b c h w) =
     (if g = 0 then Inl (RuntimeError ''conv2d: expected groups to be greater than 0'')
      else if cout < g
        then Inl (RuntimeError ''conv2d: expected weight to be at least groups at dimension 0'')
      else if c \<noteq> cin then Inl (RuntimeError ''conv2d: input channels do not match the weight'')
      else and_then (conv_output_size h k s p) (\<lambda>h'.
           and_then (conv_output_size w k s p) (\<lambda>w'. Inr (NCHW b cout h' w'))))"
| "layer_forward training (Conv2d cin cout k s p g) (NF b f) =
     Inl (RuntimeError ''conv2d: expected 3D or 4D input'')"
| "layer_forward training (BatchNorm2d n) (NCHW b c h w) =
     (if c \<noteq> n then Inl (RuntimeError ''batch_norm: running_mean has the wrong number of elements'')
      else if training \<and> b * h * w = 1
        then Inl (ValueError ''Expected more than 1 value per channel when training'')
      else Inr (NCHW b c h w))"
| "layer_forward training (BatchNorm2d n) (NF b f) =
     Inl (ValueError ''expected 4D input'')"
| "layer_forward training ReLU x = Inr x"
| "layer_forward training ReLU6 x = Inr x"
| "layer_forward training Hswish x = Inr x"
| "layer_forward training Hsigmoid x = Inr x"
| "layer_forward training (MaxPool2d k s p ceil_mode) (NCHW b c h w) =
     and_then (pool_output_size h k s p ceil_mode) (\<lambda>h'.
     and_then (pool_output_size w k s p ceil_mode) (\<lambda>w'. Inr (NCHW b c h' w')))"
| "layer_forward training (MaxPool2d k s p ceil_mode) (NF b f) =
     Inl (RuntimeError ''max_pool2d: expected 3D or 4D input'')"
| "layer_forward training AdaptiveAvgPool2d (NCHW b c h w) =
     (if h = 0 \<or> w = 0
        then Inl (RuntimeError ''adaptive_avg_pool2d: expected non-zero size for non-batch dimensions'')
      else Inr (NCHW b c 1 1))"
| "layer_forward training AdaptiveAvgPool2d (NF b f) =
     Inl (RuntimeError ''adaptive_avg_pool2d: expected 3D or 4D input'')"
| "layer_forward training Dropout x = Inr x"
| "layer_forward training (Linear fin fout) (NF b f) =
     (if f \<noteq> fin then Inl (RuntimeError ''mat1 and mat2 shapes cannot be multiplied'')
      else Inr (NF b fout))"
| "layer_forward training (Linear fin fout) (NCHW b c h w) =
     (if w \<noteq> fin then Inl (RuntimeError ''mat1 and mat2 shapes cannot be multiplied'')
      else Inr (NCHW b c h fout))"

text \<open>nn.Sequential: the layers in order.\<close>

definition Sequential :: "bool \<Rightarrow> layer list \<Rightarrow> shape \<Rightarrow> error + shape" where
  "Sequential training ls = chain (map (layer_forward training) ls)"

text \<open>
  Elementwise arithmetic broadcasts: two sizes are compatible when they are equal or one
  of them is 1.  An in-place operation (\<^verbatim>\<open>x += y\<close>) must keep the shape of \<open>x\<close>.
\<close>

definition broadcast_dim :: "nat \<Rightarrow> nat \<Rightarrow> error + nat" where
  "broadcast_dim m n =
     (if m = n then Inr m else if m = 1 then Inr n else if n = 1 then Inr m
      else Inl (RuntimeError ''The size of tensor a must match the size of tensor b''))"

fun broadcast :: "shape \<Rightarrow> shape \<Rightarrow> error + shape" where
  "broadcast (NCHW b c h w) (NCHW b' c' h' w') =
     and_then (broadcast_dim b b') (\<lambda>b''.
     and_then (broadcast_dim c c') (\<lambda>c''.
     and_then (broadcast_dim h h') (\<lambda>h''.
     and_then (broadcast_dim w w') (\<lambda>w''. Inr (NCHW b'' c'' h'' w'')))))"
| "broadcast (NF b f) (NF b' f') =
     and_then (broadcast_dim b b') (\<lambda>b''.
     and_then (broadcast_dim f f') (\<lambda>f''. Inr (NF b'' f'')))"
| "broadcast (NF b f) (NCHW b' c' h' w') =
     and_then (broadcast_dim b h') (\<lambda>h''.
     and_then (broadcast_dim f w') (\<lambda>w''. Inr (NCHW b' c' h'' w'')))"
| "broadcast (NCHW b c h w) (NF b' f') =
     and_then (broadcast_dim h b') (\<lambda>h''.
     and_then (broadcast_dim w f') (\<lambda>w''. Inr (NCHW b c h'' w'')))"

definition iadd :: "shape \<Rightarrow> shape \<Rightarrow> error + shape" where
  "iadd x y =
     and_then (broadcast x y) (\<lambda>r.
       if r = x then Inr x
       else Inl (RuntimeError ''output with this shape does not match the broadcast shape''))"

text \<open>\<^verbatim>\<open>torch.cat([x, y], 1)\<close>: every dimension but the second must agree.\<close>

fun cat1 :: "shape \<Rightarrow> shape \<Rightarrow> error + shape" where
  "cat1 (NCHW b c h w) (NCHW b' c' h' w') =
     (if b = b' \<and> h = h' \<and> w = w' then Inr (NCHW b (c + c') h w)
      else Inl (RuntimeError ''Sizes of tensors must match except in dimension 1''))"
| "cat1 (NF b f) (NF b' f') =
     (if b = b' then Inr (NF b (f + f'))
      else Inl (RuntimeError ''Sizes of tensors must match except in dimension 1''))"
| "cat1 x y = Inl (RuntimeError ''Tensors must have same number of dimensions'')"

fun numel :: "shape \<Rightarrow> nat" where
  "numel (NCHW b c h w) = b * c * h * w"
| "numel (NF b f) = b * f"

fun size0 :: "shape \<Rightarrow> nat" where
  "size0 (NCHW b c h w) = b"
| "size0 (NF b f) = b"

fun size1 :: "shape \<Rightarrow> nat" where
  "size1 (NCHW b c h w) = c"
| "size1 (NF b f) = f"

text \<open>
  \<^verbatim>\<open>x.view(n, -1)\<close> and \<^verbatim>\<open>x.view(-1, n)\<close>: the dimension written -1 is inferred from the
  number of elements, which fails when \<open>n\<close> is 0 or does not divide it.
\<close>

definition view_infer :: "shape \<Rightarrow> nat \<Rightarrow> error + nat" where
  "view_infer x n =
     (if n = 0 then Inl (RuntimeError ''cannot reshape: the unspecified dimension is ambiguous or the shape is invalid'')
      else if numel x mod n \<noteq> 0 then Inl (RuntimeError ''shape is invalid for input of this size'')
      else Inr (numel x div n))"

definition view_rows :: "shape \<Rightarrow> nat \<Rightarrow> error + shape" where
  "view_rows x n = and_then (view_infer x n) (\<lambda>m. Inr (NF n m))"

definition view_cols :: "shape \<Rightarrow> nat \<Rightarrow> error + shape" where
  "view_cols x n = and_then (view_infer x n) (\<lambda>m. Inr (NF m n))"

text \<open>\<^verbatim>\<open>torch.flatten(x, 1)\<close>.\<close>

fun flatten1 :: "shape \<Rightarrow> error + shape" where
  "flatten1 (NCHW b c h w) = Inr (NF b (c * h * w))"
| "flatten1 (NF b f) = Inr (NF b f)"

section \<open>The module's global names\<close>

text \<open>
  The names bound at module level in \<^verbatim>\<open>model_builder.py\<close>: its three imports
  (\<^verbatim>\<open>import torch\<close>, \<^verbatim>\<open>from torch import nn\<close>, \<^verbatim>\<open>import torch.nn.functional as F\<close>)
  and its classes.  Reading any other name that is not a Python builtin raises NameError.
\<close>

definition module_globals :: "string list" where
  "module_globals =
     [''torch'', ''nn'', ''F'',
      ''VGG19'', ''Block'', ''ResNet18'', ''Hswish'', ''Hsigmoid'', ''SqueezeExcitation'',
      ''InvertedResidualBlock'', ''MobileNetV3_Stem'', ''Bottlenecks'', ''Classifier'',
      ''MobileNetV3'', ''Fire'', ''SqueezeNet'', ''InvertedResidual'', ''MnasNet'']"

text \<open>Reading the global name \<open>n\<close> where the names \<open>globals\<close> are bound.\<close>

definition global_name :: "string list \<Rightarrow> string \<Rightarrow> error + unit" where
  "global_name globals n = (if n \<in> set globals then Inr () else Inl (NameError n))"

section \<open>SqueezeNet\<close>

record Fire =
  inplanes :: nat
  squeeze :: layer
  squeeze_activation :: layer
  expand1x1 :: layer
  expand1x1_activation :: layer
  expand3x3 :: layer
  expand3x3_activation :: layer

definition Fire_init :: "nat \<Rightarrow> nat \<Rightarrow> nat \<Rightarrow> nat \<Rightarrow> Fire" where
  "Fire_init inplanes' squeeze_planes expand1x1_planes expand3x3_planes =
     \<lparr> inplanes = inplanes',
       squeeze = Conv2d inplanes' squeeze_planes 1 1 0 1,
       squeeze_activation = ReLU,
       expand1x1 = Conv2d squeeze_planes expand1x1_planes 1 1 0 1,
       expand1x1_activation = ReLU,
       expand3x3 = Conv2d squeeze_planes expand3x3_planes 3 1 1 1,
       expand3x3_activation = ReLU \<rparr>"

definition Fire_forward :: "bool \<Rightarrow> Fire \<Rightarrow> shape \<Rightarrow> error + shape" where
  "Fire_forward training m x =
     and_then (chain [layer_forward training (squeeze m),
                      layer_forward training (squeeze_activation m)] x) (\<lambda>x.
     and_then (chain [layer_forward training (expand1x1 m),
                      layer_forward training (expand1x1_activation m)] x) (\<lambda>a.
     and_then (chain [layer_forward training (expand3x3 m),
                      layer_forward training (expand3x3_activation m)] x) (\<lambda>b.
     cat1 a b)))"

text \<open>An entry of SqueezeNet's \<^verbatim>\<open>features\<close>: a primitive layer or a Fire module.\<close>

datatype feature = Prim layer | FireM Fire

fun feature_forward :: "bool \<Rightarrow> feature \<Rightarrow> shape \<Rightarrow> error + shape" where
  "feature_forward training (Prim l) x = layer_forward training l x"
| "feature_forward training (FireM m) x = Fire_forward training m x"

definition features_1_0 :: "feature list" where
  "features_1_0 =
     [Prim (Conv2d 3 96 7 2 0 1),
      Prim ReLU,
      Prim (MaxPool2d 3 2 0 True),
      FireM (Fire_init 96 16 64 64),
      FireM (Fire_init 128 16 64 64),
      FireM (Fire_init 128 32 128 128),
      Prim (MaxPool2d 3 2 0 True),
      FireM (Fire_init 256 32 128 128),
      FireM (Fire_init 256 48 192 192),
      FireM (Fire_init 384 48 192 192),
      FireM (Fire_init 384 64 256 256),
      Prim (MaxPool2d 3 2 0 True),
      FireM (Fire_init 512 64 256 256)]"

definition features_1_1 :: "feature list" where
  "features_1_1 =
     [Prim (Conv2d 3 64 3 2 0 1),
      Prim ReLU,
      Prim (MaxPool2d 3 2 0 True),
      FireM (Fire_init 64 16 64 64),
      FireM (Fire_init 128 16 64 64),
      Prim (MaxPool2d 3 2 0 True),
      FireM (Fire_init 128 32 128 128),
      FireM (Fire_init 256 32 128 128),
      Prim (MaxPool2d 3 2 0 True),
      FireM (Fire_init 256 48 192 192),
      FireM (Fire_init 384 48 192 192),
      FireM (Fire_init 384 64 256 256),
      FireM (Fire_init 512 64 256 256)]"

text \<open>The version switch of \<^verbatim>\<open>SqueezeNet.__init__\<close> (the if / elif / else on \<open>version\<close>).\<close>

definition select_features :: "string \<Rightarrow> error + feature list" where
  "select_features version =
     (if version = ''1_0'' then Inr features_1_0
      else if version = ''1_1'' then Inr features_1_1
      else Inl (ValueError (''Unsupported SqueezeNet version '' @ version @ '': 1_0 or 1_1 expected'')))"

record SqueezeNet =
  sq_num_classes :: nat
  sq_features :: "feature list"
  sq_classifier :: "layer list"

text \<open>
  \<^verbatim>\<open>SqueezeNet.__init__\<close>, statement by statement, run where the global names \<open>globals\<close>
  are bound: the call of \<^verbatim>\<open>_log_api_usage_once\<close>, the version switch, the classifier, and
  the initialisation loop, which reads the name \<^verbatim>\<open>init\<close> at the first convolution it
  visits (the classifier always holds one).  The argument \<^verbatim>\<open>dropout\<close> only sets the rate of
  the dropout layer and is left out.  \<open>SqueezeNet_init\<close> is the constructor as the module
  runs it, with the module's own global names.
\<close>

definition SqueezeNet_init_in :: "string list \<Rightarrow> string \<Rightarrow> nat \<Rightarrow> error + SqueezeNet" where
  "SqueezeNet_init_in globals version num_classes =
     and_then (global_name globals ''_log_api_usage_once'') (\<lambda>_.
     and_then (select_features version) (\<lambda>features.
     let final_conv = Conv2d 512 num_classes 1 1 0 1;
         classifier = [Dropout, final_conv, ReLU, AdaptiveAvgPool2d]
     in and_then (global_name globals ''init'') (\<lambda>_.
        Inr \<lparr> sq_num_classes = num_classes, sq_features = features,
              sq_classifier = classifier \<rparr>)))"

definition SqueezeNet_init :: "string \<Rightarrow> nat \<Rightarrow> error + SqueezeNet" where
  "SqueezeNet_init version num_classes = SqueezeNet_init_in module_globals version num_classes"

definition SqueezeNet_forward :: "bool \<Rightarrow> SqueezeNet \<Rightarrow> shape \<Rightarrow> error + shape" where
  "SqueezeNet_forward training m x =
     and_then (chain (map (feature_forward training) (sq_features m)) x) (\<lambda>x.
     and_then (Sequential training (sq_classifier m) x) (\<lambda>x.
     flatten1 x))"

section \<open>VGG19\<close>

record VGG19 =
  conv_1_1 :: "layer list"
  conv_1_2 :: "layer list"
  conv_2_1 :: "layer list"
  conv_2_2 :: "layer list"
  conv_3_1 :: "layer list"
  conv_3_2 :: "layer list"
  conv_3_3 :: "layer list"
  conv_3_4 :: "layer list"
  conv_4_1 :: "layer list"
  conv_4_2 :: "layer list"
  conv_4_3 :: "layer list"
  conv_4_4 :: "layer list"
  conv_5_1 :: "layer list"
  conv_5_2 :: "layer list"
  conv_5_3 :: "layer list"
  conv_5_4 :: "layer list"
  vgg_fc :: "layer list"
  vgg_fc1 :: "layer list"
  vgg_fc2 :: "layer list"
  vgg_pool :: layer

text \<open>The conv / batch-norm / ReLU group every convolution stage of VGG19 consists of.\<close>

definition vgg_stage :: "nat \<Rightarrow> nat \<Rightarrow> nat \<Rightarrow> nat \<Rightarrow> nat \<Rightarrow> layer list" where
  "vgg_stage cin cout kernel_size stride padding =
     [Conv2d cin cout kernel_size stride padding 1, BatchNorm2d cout, ReLU]"

definition VGG19_init :: "nat \<Rightarrow> nat \<Rightarrow> nat \<Rightarrow> nat \<Rightarrow> VGG19" where
  "VGG19_init num_classes kernel_size padding stride =
     \<lparr> conv_1_1 = vgg_stage 3 64 kernel_size stride padding,
       conv_1_2 = vgg_stage 64 64 kernel_size stride padding,
       conv_2_1 = vgg_stage 64 128 kernel_size stride padding,
       conv_2_2 = vgg_stage 128 128 kernel_size stride padding,
       conv_3_1 = vgg_stage 128 256 kernel_size stride padding,
       conv_3_2 = vgg_stage 256 256 kernel_size stride padding,
       conv_3_3 = vgg_stage 256 256 kernel_size stride padding,
       conv_3_4 = vgg_stage 256 256 kernel_size stride padding,
       conv_4_1 = vgg_stage 256 512 kernel_size stride padding,
       conv_4_2 = vgg_stage 512 512 kernel_size stride padding,
       conv_4_3 = vgg_stage 512 512 kernel_size stride padding,
       conv_4_4 = vgg_stage 512 512 kernel_size stride padding,
       conv_5_1 = vgg_stage 512 512 kernel_size stride padding,
       conv_5_2 = vgg_stage 512 512 kernel_size stride padding,
       conv_5_3 = vgg_stage 512 512 kernel_size stride padding,
       conv_5_4 = vgg_stage 512 512 kernel_size stride padding,
       vgg_fc = [Dropout, Linear (7 * 7 * 512) 4096, ReLU],
       vgg_fc1 = [Dropout, Linear 4096 4096, ReLU],
       vgg_fc2 = [Linear 4096 num_classes],
       vgg_pool = MaxPool2d 2 2 0 False \<rparr>"

definition VGG19_forward :: "bool \<Rightarrow> VGG19 \<Rightarrow> shape \<Rightarrow> error + shape" where
  "VGG19_forward training m x =
     chain
       [Sequential training (conv_1_1 m),
        Sequential training (conv_1_2 m),
        layer_forward training (vgg_pool m),
        Sequential training (conv_2_1 m),
        Sequential training (conv_2_2 m),
        layer_forward training (vgg_pool m),
        Sequential training (conv_3_1 m),
        Sequential training (conv_3_2 m),
        Sequential training (conv_3_3 m),
        Sequential training (conv_3_4 m),
        layer_forward training (vgg_pool m),
        Sequential training (conv_4_1 m),
        Sequential training (conv_4_2 m),
        Sequential training (conv_4_3 m),
        Sequential training (conv_4_4 m),
        layer_forward training (vgg_pool m),
        Sequential training (conv_5_1 m),
        Sequential training (conv_5_2 m),
        Sequential training (conv_5_3 m),
        Sequential training (conv_5_4 m),
        layer_forward training (vgg_pool m),
        (\<lambda>out. view_rows out (size0 out)),
        Sequential training (vgg_fc m),
        Sequential training (vgg_fc1 m),
        Sequential training (vgg_fc2 m)] x"

section \<open>ResNet18\<close>

record Block =
  blk_conv1 :: layer
  blk_bn1 :: layer
  blk_conv2 :: layer
  blk_bn2 :: layer
  blk_relu :: layer
  identity_downsample :: "layer list option"

definition Block_init :: "nat \<Rightarrow> nat \<Rightarrow> layer list option \<Rightarrow> nat \<Rightarrow> Block" where
  "Block_init in_channels out_channels identity_downsample' stride =
     \<lparr> blk_conv1 = Conv2d in_channels out_channels 3 stride 1 1,
       blk_bn1 = BatchNorm2d out_channels,
       blk_conv2 = Conv2d out_channels out_channels 3 1 1 1,
       blk_bn2 = BatchNorm2d out_channels,
       blk_relu = ReLU,
       identity_downsample = identity_downsample' \<rparr>"

text \<open>
  \<^verbatim>\<open>Block.forward\<close> in three parts: the main path (conv1 to bn2), the shortcut
  (\<^verbatim>\<open>identity\<close>, passed through the downsample path when there is one), and the in-place
  add followed by the activation.
\<close>

definition Block_main :: "bool \<Rightarrow> Block \<Rightarrow> shape \<Rightarrow> error + shape" where
  "Block_main training m x =
     chain
       [layer_forward training (blk_conv1 m),
        layer_forward training (blk_bn1 m),
        layer_forward training (blk_relu m),
        layer_forward training (blk_conv2 m),
        layer_forward training (blk_bn2 m)] x"

definition Block_shortcut :: "bool \<Rightarrow> Block \<Rightarrow> shape \<Rightarrow> error + shape" where
  "Block_shortcut training m identity =
     (case identity_downsample m of
        None \<Rightarrow> Inr identity
      | Some d \<Rightarrow> Sequential training d identity)"

definition Block_forward :: "bool \<Rightarrow> Block \<Rightarrow> shape \<Rightarrow> error + shape" where
  "Block_forward training m x =
     (let identity = x in
      and_then (Block_main training m x) (\<lambda>x.
      and_then (Block_shortcut training m identity) (\<lambda>identity.
      and_then (iadd x identity) (\<lambda>x.
      layer_forward training (blk_relu m) x))))"

definition ResNet18_identity_downsample :: "nat \<Rightarrow> nat \<Rightarrow> layer list" where
  "ResNet18_identity_downsample in_channels out_channels =
     [Conv2d in_channels out_channels 3 2 1 1, BatchNorm2d out_channels]"

definition make_layer :: "nat \<Rightarrow> nat \<Rightarrow> nat \<Rightarrow> Block list" where
  "make_layer in_channels out_channels stride =
     (let identity_downsample' =
            (if stride \<noteq> 1 then Some (ResNet18_identity_downsample in_channels out_channels)
             else None)
      in [Block_init in_channels out_channels identity_downsample' stride,
          Block_init out_channels out_channels None 1])"

record ResNet18 =
  rn_conv1 :: layer
  rn_bn1 :: layer
  rn_relu :: layer
  rn_maxpool :: layer
  layer1 :: "Block list"
  layer2 :: "Block list"
  layer3 :: "Block list"
  layer4 :: "Block list"
  rn_avgpool :: layer
  rn_fc :: layer

definition ResNet18_init :: "nat \<Rightarrow> ResNet18" where
  "ResNet18_init num_classes =
     \<lparr> rn_conv1 = Conv2d 3 64 7 2 3 1,
       rn_bn1 = BatchNorm2d 64,
       rn_relu = ReLU,
       rn_maxpool = MaxPool2d 3 2 1 False,
       layer1 = make_layer 64 64 1,
       layer2 = make_layer 64 128 2,
       layer3 = make_layer 128 256 2,
       layer4 = make_layer 256 512 2,
       rn_avgpool = AdaptiveAvgPool2d,
       rn_fc = Linear 512 num_classes \<rparr>"

definition ResNet18_forward :: "bool \<Rightarrow> ResNet18 \<Rightarrow> shape \<Rightarrow> error + shape" where
  "ResNet18_forward training m x =
     chain
       [layer_forward training (rn_conv1 m),
        layer_forward training (rn_bn1 m),
        layer_forward training (rn_relu m),
        layer_forward training (rn_maxpool m),
        chain (map (Block_forward training) (layer1 m)),
        chain (map (Block_forward training) (layer2 m)),
        chain (map (Block_forward training) (layer3 m)),
        chain (map (Block_forward training) (layer4 m)),
        layer_forward training (rn_avgpool m),
        (\<lambda>x. view_rows x (size0 x)),
        layer_forward training (rn_fc m)] x"

text \<open>
  The (in_channels, out_channels, stride, downsample?) of the eight Residual Blocks that
  \<^verbatim>\<open>ResNet18.__init__\<close> builds, in the order of the four layer groups.
\<close>

definition ResNet18_blocks :: "nat \<Rightarrow> Block list" where
  "ResNet18_blocks num_classes =
     (let m = ResNet18_init num_classes in layer1 m @ layer2 m @ layer3 m @ layer4 m)"

section \<open>MobileNetV3\<close>

text \<open>
  A convolution with \<open>groups\<close> given: the constructor of torch.nn.Conv2d refuses a group
  count that is not positive or does not divide both channel counts.
\<close>

definition grouped_Conv2d :: "nat \<Rightarrow> nat \<Rightarrow> nat \<Rightarrow> nat \<Rightarrow> nat \<Rightarrow> nat \<Rightarrow> error + layer" where
  "grouped_Conv2d cin cout k s p g =
     (if g = 0 then Inl (ValueError ''groups must be a positive integer'')
      else if cin mod g \<noteq> 0 then Inl (ValueError ''in_channels must be divisible by groups'')
      else if cout mod g \<noteq> 0 then Inl (ValueError ''out_channels must be divisible by groups'')
      else Inr (Conv2d cin cout k s p g))"

fun collect :: "(error + 'a) list \<Rightarrow> error + 'a list" where
  "collect [] = Inr []"
| "collect (r # rs) = and_then r (\<lambda>v. and_then (collect rs) (\<lambda>vs. Inr (v # vs)))"

record SqueezeExcitation =
  se :: "layer list"

definition SqueezeExcitation_init :: "nat \<Rightarrow> nat \<Rightarrow> SqueezeExcitation" where
  "SqueezeExcitation_init in_channels reduced_channels =
     \<lparr> se = [AdaptiveAvgPool2d,
              Conv2d in_channels reduced_channels 1 1 0 1,
              Hswish,
              Conv2d reduced_channels in_channels 1 1 0 1,
              Hsigmoid] \<rparr>"

definition SqueezeExcitation_forward :: "bool \<Rightarrow> SqueezeExcitation \<Rightarrow> shape \<Rightarrow> error + shape" where
  "SqueezeExcitation_forward training m x =
     and_then (Sequential training (se m) x) (\<lambda>se'. broadcast x se')"

record InvertedResidualBlock =
  irb_use_residual :: bool
  irb_block :: "layer list"

definition InvertedResidualBlock_init ::
  "nat \<Rightarrow> nat \<Rightarrow> nat \<Rightarrow> nat \<Rightarrow> error + InvertedResidualBlock" where
  "InvertedResidualBlock_init in_channels out_channels stride expansion_factor =
     (let hidden_dim = in_channels * expansion_factor;
          use_residual = (stride = 1 \<and> in_channels = out_channels);
          layers = [];
          layers = (if expansion_factor \<noteq> 1
                    then layers @ [Conv2d in_channels hidden_dim 1 1 0 1,
                                   BatchNorm2d hidden_dim,
                                   Hswish]
                    else layers)
      in and_then (grouped_Conv2d hidden_dim hidden_dim 3 stride 1 hidden_dim) (\<lambda>depthwise.
         let layers = layers @ [depthwise, BatchNorm2d hidden_dim, Hswish];
             layers = layers @ [Conv2d hidden_dim out_channels 1 1 0 1, BatchNorm2d out_channels]
         in Inr \<lparr> irb_use_residual = use_residual, irb_block = layers \<rparr>))"

definition InvertedResidualBlock_forward ::
  "bool \<Rightarrow> InvertedResidualBlock \<Rightarrow> shape \<Rightarrow> error + shape" where
  "InvertedResidualBlock_forward training m x =
     (if irb_use_residual m
      then and_then (Sequential training (irb_block m) x) (\<lambda>y. broadcast x y)
      else Sequential training (irb_block m) x)"

definition MobileNetV3_Stem_init :: "nat \<Rightarrow> nat \<Rightarrow> layer list" where
  "MobileNetV3_Stem_init in_channels out_channels =
     [Conv2d in_channels out_channels 3 2 1 1, BatchNorm2d out_channels, Hswish]"

record Classifier =
  cl_avgpool :: layer
  cl_conv1 :: layer
  cl_hswish1 :: layer
  cl_dropout :: layer
  cl_conv2 :: layer

definition Classifier_init :: "nat \<Rightarrow> nat \<Rightarrow> Classifier" where
  "Classifier_init in_channels num_classes =
     \<lparr> cl_avgpool = AdaptiveAvgPool2d,
       cl_conv1 = Conv2d in_channels 1280 1 1 0 1,
       cl_hswish1 = Hswish,
       cl_dropout = Dropout,
       cl_conv2 = Conv2d 1280 num_classes 1 1 0 1 \<rparr>"

definition Classifier_forward :: "bool \<Rightarrow> Classifier \<Rightarrow> shape \<Rightarrow> error + shape" where
  "Classifier_forward training m x =
     chain
       [layer_forward training (cl_avgpool m),
        layer_forward training (cl_conv1 m),
        layer_forward training (cl_hswish1 m),
        layer_forward training (cl_dropout m),
        layer_forward training (cl_conv2 m),
        (\<lambda>x. view_rows x (size0 x))] x"

text \<open>
  The arguments (in_channels, out_channels, stride, expansion_factor) of the eight
  \<^verbatim>\<open>InvertedResidualBlock\<close> calls in \<^verbatim>\<open>MobileNetV3.__init__\<close>, in order.
\<close>

definition MobileNetV3_schedule :: "(nat \<times> nat \<times> nat \<times> nat) list" where
  "MobileNetV3_schedule =
     [(16, 16, 2, 1),
      (16, 24, 2, 2),
      (24, 40, 2, 2),
      (40, 80, 2, 1),
      (80, 160, 2, 2),
      (160, 320, 2, 1),
      (320, 640, 2, 1),
      (640, 1280, 2, 1)]"

record MobileNetV3 =
  mb_stem :: "layer list"
  bottlenecks :: "InvertedResidualBlock list"
  mb_classifier :: Classifier

definition MobileNetV3_init :: "nat \<Rightarrow> error + MobileNetV3" where
  "MobileNetV3_init num_classes =
     and_then
       (collect (map (\<lambda>(i, out, s, e). InvertedResidualBlock_init i out s e) MobileNetV3_schedule))
       (\<lambda>blocks.
          Inr \<lparr> mb_stem = MobileNetV3_Stem_init 3 16,
                bottlenecks = blocks,
                mb_classifier = Classifier_init 1280 num_classes \<rparr>)"

definition MobileNetV3_forward :: "bool \<Rightarrow> MobileNetV3 \<Rightarrow> shape \<Rightarrow> error + shape" where
  "MobileNetV3_forward training m x =
     chain
       [Sequential training (mb_stem m),
        chain (map (InvertedResidualBlock_forward training) (bottlenecks m)),
        Classifier_forward training (mb_classifier m)] x"

section \<open>MnasNet\<close>

record InvertedResidual =
  ir_stride :: nat
  ir_use_residual :: bool
  ir_expand :: "layer list"
  ir_depthwise :: "layer list"
  ir_project :: "layer list"

definition InvertedResidual_init ::
  "nat \<Rightarrow> nat \<Rightarrow> nat \<Rightarrow> nat \<Rightarrow> nat \<Rightarrow> error + InvertedResidual" where
  "InvertedResidual_init in_channels out_channels kernel_size stride expansion_factor =
     (let use_residual = (in_channels = out_channels \<and> stride = 1);
          hidden_dim = in_channels * expansion_factor
      in and_then
           (grouped_Conv2d hidden_dim hidden_dim kernel_size stride (kernel_size div 2) hidden_dim)
           (\<lambda>depthwise_conv.
              Inr \<lparr> ir_stride = stride,
                    ir_use_residual = use_residual,
                    ir_expand = [Conv2d in_channels hidden_dim 1 1 0 1,
                                 BatchNorm2d hidden_dim,
                                 ReLU6],
                    ir_depthwise = [depthwise_conv, BatchNorm2d hidden_dim, ReLU6],
                    ir_project = [Conv2d hidden_dim out_channels 1 1 0 1,
                                  BatchNorm2d out_channels] \<rparr>))"

text \<open>\<^verbatim>\<open>self.project(self.depthwise(self.expand(x)))\<close>\<close>

definition InvertedResidual_stages :: "bool \<Rightarrow> InvertedResidual \<Rightarrow> shape \<Rightarrow> error + shape" where
  "InvertedResidual_stages training m x =
     chain
       [Sequential training (ir_expand m),
        Sequential training (ir_depthwise m),
        Sequential training (ir_project m)] x"

definition InvertedResidual_forward :: "bool \<Rightarrow> InvertedResidual \<Rightarrow> shape \<Rightarrow> error + shape" where
  "InvertedResidual_forward training m x =
     (if ir_use_residual m
      then and_then (InvertedResidual_stages training m x) (\<lambda>y. broadcast x y)
      else InvertedResidual_stages training m x)"

text \<open>
  The arguments (in_channels, out_channels, kernel_size, stride, expansion_factor) of the
  fifteen \<^verbatim>\<open>InvertedResidual\<close> calls in \<^verbatim>\<open>MnasNet.__init__\<close>, in order.
\<close>

definition MnasNet_schedule :: "(nat \<times> nat \<times> nat \<times> nat \<times> nat) list" where
  "MnasNet_schedule =
     [(32, 16, 3, 1, 1),
      (16, 24, 3, 2, 6),
      (24, 24, 3, 1, 6),
      (24, 40, 5, 2, 6),
      (40, 40, 5, 1, 6),
      (40, 40, 5, 1, 6),
      (40, 80, 3, 2, 6),
      (80, 80, 3, 1, 6),
      (80, 80, 3, 1, 6),
      (80, 96, 3, 1, 6),
      (96, 96, 3, 1, 6),
      (96, 192, 5, 2, 6),
      (192, 192, 5, 1, 6),
      (192, 192, 5, 1, 6),
      (192, 320, 3, 1, 6)]"

record MnasNet =
  mn_num_classes :: nat
  mn_stem :: "layer list"
  layers :: "InvertedResidual list"
  head :: "layer list"
  mn_avgpool :: layer
  mn_classifier :: layer

definition MnasNet_init :: "nat \<Rightarrow> error + MnasNet" where
  "MnasNet_init num_classes =
     and_then
       (collect (map (\<lambda>(i, out, k, s, e). InvertedResidual_init i out k s e) MnasNet_schedule))
       (\<lambda>blocks.
          Inr \<lparr> mn_num_classes = num_classes,
                mn_stem = [Conv2d 3 32 3 2 1 1, BatchNorm2d 32, ReLU6],
                layers = blocks,
                head = [Conv2d 320 1280 1 1 0 1, BatchNorm2d 1280, ReLU6],
                mn_avgpool = AdaptiveAvgPool2d,
                mn_classifier = Linear 1280 num_classes \<rparr>)"

definition MnasNet_forward :: "bool \<Rightarrow> MnasNet \<Rightarrow> shape \<Rightarrow> error + shape" where
  "MnasNet_forward training m x =
     chain
       [Sequential training (mn_stem m),
        chain (map (InvertedResidual_forward training) (layers m)),
        Sequential training (head m),
        layer_forward training (mn_avgpool m),
        (\<lambda>x. view_cols x (size1 x)),
        layer_forward training (mn_classifier m)] x"

section \<open>Squeeze-Excitation on values\<close>




text \<open>
  A tensor with values: its shape and the value at (sample, channel, row, column).
  A 1 x 1 convolution owns a weight per (output channel, input channel) and a bias per
  output channel, set at construction.
\<close>

record tensor =
  dims :: shape
  data :: "nat \<Rightarrow> nat \<Rightarrow> nat \<Rightarrow> nat \<Rightarrow> real"

record pointwise =
  weight :: "nat \<Rightarrow> nat \<Rightarrow> real"
  bias :: "nat \<Rightarrow> real"





section \<open>The training script\<close>

text \<open>
  Python values as far as \<^verbatim>\<open>train.py\<close> handles them, and the namespace
  \<^verbatim>\<open>parser.parse_args()\<close> returns: an option given on the command line is a string, an
  option left out has its default (None where \<^verbatim>\<open>add_argument\<close> names none).
\<close>

datatype pyval = PyNone | PyBool bool | PyInt int | PyStr string

record Namespace =
  MODEL :: pyval
  TRAINED :: pyval
  EPOCHS :: pyval
  BATCH_SIZE :: pyval

definition parse_args ::
  "string option \<Rightarrow> string option \<Rightarrow> string option \<Rightarrow> string option \<Rightarrow> Namespace" where
  "parse_args model trained epochs batch_size =
     \<lparr> MODEL = (case model of None \<Rightarrow> PyNone | Some s \<Rightarrow> PyStr s),
       TRAINED = (case trained of None \<Rightarrow> PyBool False | Some s \<Rightarrow> PyStr s),
       EPOCHS = (case epochs of None \<Rightarrow> PyNone | Some s \<Rightarrow> PyStr s),
       BATCH_SIZE = (case batch_size of None \<Rightarrow> PyInt 8 | Some s \<Rightarrow> PyStr s) \<rparr>"

text \<open>\<^verbatim>\<open>v == s\<close> for a string \<open>s\<close>: a value equals a string only when it is that string.\<close>

definition py_eq_str :: "pyval \<Rightarrow> string \<Rightarrow> bool" where
  "py_eq_str v s = (v = PyStr s)"

definition is_space :: "char \<Rightarrow> bool" where
  "is_space c = (c \<in> set [CHR '' '', CHR 0x09, CHR 0x0A, CHR 0x0B, CHR 0x0C, CHR 0x0D,
                           CHR 0x1C, CHR 0x1D, CHR 0x1E, CHR 0x1F])"

definition py_strip :: "string \<Rightarrow> string" where
  "py_strip s = rev (dropWhile is_space (rev (dropWhile is_space s)))"

definition py_lower :: "string \<Rightarrow> string" where
  "py_lower s =
     map (\<lambda>c. if (65::nat) \<le> of_char c \<and> of_char c \<le> (90::nat)
               then char_of (of_char c + (32::nat)) else c) s"

definition is_digit :: "char \<Rightarrow> bool" where
  "is_digit c = ((48::nat) \<le> of_char c \<and> of_char c \<le> (57::nat))"

text \<open>
  Decimal digits, where a single underscore may stand between two digits; \<open>d\<close> tells
  whether the character before was a digit.
\<close>

fun parse_digits :: "bool \<Rightarrow> nat \<Rightarrow> string \<Rightarrow> nat option" where
  "parse_digits d acc [] = (if d then Some acc else None)"
| "parse_digits d acc (c # cs) =
     (if is_digit c then parse_digits True (10 * acc + (of_char c - 48)) cs
      else if c = CHR ''_'' \<and> d then parse_digits False acc cs
      else None)"

text \<open>\<^verbatim>\<open>int(v)\<close> for the values an option can hold.\<close>

definition py_int :: "pyval \<Rightarrow> error + int" where
  "py_int v =
     (case v of
        PyNone \<Rightarrow> Inl (TypeError ''int() argument must be a string, a bytes-like object or a real number, not NoneType'')
      | PyBool b \<Rightarrow> Inr (if b then 1 else 0)
      | PyInt i \<Rightarrow> Inr i
      | PyStr s \<Rightarrow>
          (let t = py_strip s;
               neg = (t \<noteq> [] \<and> hd t = CHR ''-'');
               body = (if t \<noteq> [] \<and> (hd t = CHR ''-'' \<or> hd t = CHR ''+'') then tl t else t)
           in case parse_digits False 0 body of
                None \<Rightarrow> Inl (ValueError ''invalid literal for int() with base 10'')
              | Some n \<Rightarrow> Inr (if neg then - int n else int n)))"

text \<open>
  The collaborators that are not part of these sources (\<^verbatim>\<open>data_setup\<close>, \<^verbatim>\<open>utils\<close>,
  \<^verbatim>\<open>engine\<close>) are parameters: each call either raises or returns, and the script
  records the call.  \<^verbatim>\<open>create_dataloaders\<close> returns the class names.
\<close>

record collaborators =
  create_dataloaders :: "int \<Rightarrow> error + string list"
  load_model :: "string \<Rightarrow> error + unit"
  load_data :: "string \<Rightarrow> error + unit"
  train :: "string \<Rightarrow> int \<Rightarrow> error + unit"
  save_model :: "string \<Rightarrow> error + unit"
  save_data :: "string \<Rightarrow> error + unit"

datatype event =
    CreatedDataloaders int
  | BuiltModel string
  | LoadedModel string
  | LoadedData string
  | Trained string int
  | SavedModel string
  | SavedData string

text \<open>
  A run of the script: the events so far, and either the exception that ended it or the
  value of the statement.
\<close>

type_synonym 'a run = "event list \<times> (error + 'a)"

definition step :: "'a run \<Rightarrow> ('a \<Rightarrow> 'b run) \<Rightarrow> 'b run" where
  "step r f =
     (case snd r of
        Inl e \<Rightarrow> (fst r, Inl e)
      | Inr v \<Rightarrow> (fst r @ fst (f v), snd (f v)))"

definition pure :: "error + 'a \<Rightarrow> 'a run" where
  "pure r = ([], r)"

definition emit :: "event \<Rightarrow> error + 'a \<Rightarrow> 'a run" where
  "emit ev r = (case r of Inl e \<Rightarrow> ([], Inl e) | Inr v \<Rightarrow> ([ev], Inr v))"

text \<open>\<^verbatim>\<open>model_builder.<name>\<close>: an attribute of the module, or AttributeError.\<close>

definition model_builder_attr :: "string \<Rightarrow> error + unit" where
  "model_builder_attr n =
     (if n \<in> set module_globals then Inr () else Inl (AttributeError n))"

datatype model =
    VGG19_model VGG19
  | ResNet18_model ResNet18
  | MnasNet_model MnasNet
  | MobileNetV3_model MobileNetV3

text \<open>
  The if / elif chain that selects and constructs the model, with the new
  \<^verbatim>\<open>model_name\<close>.  The last four branches name classes \<^verbatim>\<open>model_builder\<close> does not define.
\<close>

definition select_model :: "string \<Rightarrow> nat \<Rightarrow> error + model \<times> string" where
  "select_model model_name num_classes =
     (if model_name = ''vgg19'' then
        and_then (model_builder_attr ''VGG19'') (\<lambda>_.
        Inr (VGG19_model (VGG19_init num_classes 3 1 1), ''VGG19''))
      else if model_name = ''resnet18'' then
        and_then (model_builder_attr ''ResNet18'') (\<lambda>_.
        Inr (ResNet18_model (ResNet18_init num_classes), ''ResNet18''))
      else if model_name = ''mnasnet'' then
        and_then (model_builder_attr ''MnasNet'') (\<lambda>_.
        and_then (MnasNet_init num_classes) (\<lambda>m. Inr (MnasNet_model m, ''MnasNet'')))
      else if model_name = ''mobilenetv3'' then
        and_then (model_builder_attr ''MobileNetV3'') (\<lambda>_.
        and_then (MobileNetV3_init num_classes) (\<lambda>m. Inr (MobileNetV3_model m, ''MobileNetV3'')))
      else if model_name = ''alexnet'' then
        and_then (model_builder_attr ''AlexNet'') (\<lambda>_. Inl (AttributeError ''AlexNet''))
      else if model_name = ''shufflenetv2'' then
        and_then (model_builder_attr ''ShuffleNetV2'') (\<lambda>_. Inl (AttributeError ''ShuffleNetV2''))
      else if model_name = ''squeezenet'' then
        and_then (model_builder_attr ''ShuffleNetV2'') (\<lambda>_. Inl (AttributeError ''ShuffleNetV2''))
      else if model_name = ''efficientnet'' then
        and_then (model_builder_attr ''EfficientNet'') (\<lambda>_. Inl (AttributeError ''EfficientNet''))
      else Inl (Exception ''Wrong Model.''))"

text \<open>
  \<^verbatim>\<open>trained = True if args.TRAINED == "True" else False if args.TRAINED == "False" else None\<close>
  and the check that follows it (the message is written without its quotation marks).
\<close>

definition trained_flag :: "pyval \<Rightarrow> error + bool" where
  "trained_flag v =
     (let trained = (if py_eq_str v ''True'' then Some True
                     else if py_eq_str v ''False'' then Some False
                     else None)
      in case trained of
           None \<Rightarrow> Inl (Exception ''Wrong Argument --TRAINED, True or False.'')
         | Some t \<Rightarrow> Inr t)"

text \<open>The body of \<^verbatim>\<open>train.py\<close>, in the order of its statements.\<close>

definition main :: "collaborators \<Rightarrow> Namespace \<Rightarrow> unit run" where
  "main ext args =
     step (pure (py_int (EPOCHS args))) (\<lambda>NUM_EPOCHS.
     step (pure (py_int (BATCH_SIZE args))) (\<lambda>BATCH_SIZE'.
     step (emit (CreatedDataloaders BATCH_SIZE') (create_dataloaders ext BATCH_SIZE')) (\<lambda>class_names.
     step (pure (case MODEL args of
                   PyStr s \<Rightarrow> Inr (py_lower (py_strip s))
                 | _ \<Rightarrow> Inl (AttributeError ''strip''))) (\<lambda>model_name.
     step (case select_model model_name (length class_names) of
             Inl e \<Rightarrow> pure (Inl e)
           | Inr built \<Rightarrow> emit (BuiltModel (snd built)) (Inr built)) (\<lambda>built.
     let model_name = snd built in
     step (pure (trained_flag (TRAINED args))) (\<lambda>trained.
     step (if trained then emit (LoadedModel model_name) (load_model ext (model_name @ ''.pth''))
           else pure (Inr ())) (\<lambda>_.
     step (if trained then emit (LoadedData model_name) (load_data ext model_name)
           else pure (Inr ())) (\<lambda>_.
     step (emit (Trained model_name NUM_EPOCHS) (train ext model_name NUM_EPOCHS)) (\<lambda>_.
     step (emit (SavedModel model_name) (save_model ext (model_name @ ''.pth''))) (\<lambda>_.
     emit (SavedData model_name) (save_data ext model_name)))))))))))"

section \<open>Properties\<close>

lemma and_then_Inr [simp]: "and_then (Inr v) f = f v"
  by (simp add: and_then_def)

lemma and_then_Inl [simp]: "and_then (Inl e) f = Inl e"
  by (simp add: and_then_def)


subsection \<open>Reshaping\<close>

lemma view_rows_NCHW: "0 < b \<Longrightarrow> view_rows (NCHW b c h w) b = Inr (NF b (c * h * w))"
  by (simp add: view_rows_def view_infer_def mult.assoc)

lemma view_cols_NCHW: "0 < c \<Longrightarrow> view_cols (NCHW b c h w) c = Inr (NF (b * h * w) c)"
proof -
  assume c: "0 < c"
  have e: "b * c * h * w = c * (b * h * w)" by (simp add: mult_ac)
  show ?thesis using c by (simp add: view_cols_def view_infer_def e)
qed

lemmas shape_defs =
  Sequential_def conv_output_size_def pool_output_size_def pooling_output_shape_def
  broadcast_dim_def iadd_def

subsection \<open>The architectures at their canonical input size\<close>

text \<open>
  VGG19 with the default kernel size 3, padding 1 and stride 1, ResNet18 and MnasNet map a
  batch of 224 x 224 RGB images to one row of \<open>K\<close> scores per image, in either mode.
  The nine stride-2 convolutions of MobileNetV3 take the 224 x 224 input down to 1 x 1, so
  that in training mode its batch normalisation needs a batch of at least two images.
\<close>

lemma VGG19_forward_shape:
  "0 < B \<Longrightarrow> VGG19_forward training (VGG19_init K 3 1 1) (NCHW B 3 224 224) = Inr (NF B K)"
  by (simp add: VGG19_forward_def VGG19_init_def vgg_stage_def shape_defs view_rows_NCHW)

lemma ResNet18_forward_shape:
  "0 < B \<Longrightarrow> ResNet18_forward training (ResNet18_init K) (NCHW B 3 224 224) = Inr (NF B K)"
  by (simp add: ResNet18_forward_def ResNet18_init_def make_layer_def Block_init_def
      Block_forward_def Block_main_def Block_shortcut_def ResNet18_identity_downsample_def
      shape_defs view_rows_NCHW)

lemma MnasNet_forward_shape:
  "and_then (MnasNet_init K) (\<lambda>m. MnasNet_forward training m (NCHW B 3 224 224)) = Inr (NF B K)"
  by (simp add: MnasNet_init_def MnasNet_schedule_def InvertedResidual_init_def
      grouped_Conv2d_def MnasNet_forward_def InvertedResidual_forward_def
      InvertedResidual_stages_def shape_defs view_cols_NCHW)

lemma MobileNetV3_forward_shape:
  "0 < B \<Longrightarrow> 0 < K \<Longrightarrow> (training \<longrightarrow> 2 \<le> B) \<Longrightarrow>
   and_then (MobileNetV3_init K) (\<lambda>m. MobileNetV3_forward training m (NCHW B 3 224 224))
     = Inr (NF B K)"
  by (auto simp add: MobileNetV3_init_def MobileNetV3_schedule_def
      InvertedResidualBlock_init_def grouped_Conv2d_def MobileNetV3_forward_def
      InvertedResidualBlock_forward_def MobileNetV3_Stem_init_def Classifier_init_def
      Classifier_forward_def shape_defs view_rows_NCHW)

lemma MobileNetV3_forward_single_image_training:
  "0 < K \<Longrightarrow> and_then (MobileNetV3_init K) (\<lambda>m. MobileNetV3_forward True m (NCHW 1 3 224 224))
     = Inl (ValueError ''Expected more than 1 value per channel when training'')"
  by (simp add: MobileNetV3_init_def MobileNetV3_schedule_def
      InvertedResidualBlock_init_def grouped_Conv2d_def MobileNetV3_forward_def
      InvertedResidualBlock_forward_def MobileNetV3_Stem_init_def Classifier_init_def
      Classifier_forward_def shape_defs view_rows_NCHW)

text \<open>The three scenarios the specification names.\<close>

lemma concrete_scenarios:
  "ResNet18_forward training (ResNet18_init 10) (NCHW 1 3 224 224) = Inr (NF 1 10)"
  "VGG19_forward training (VGG19_init 10 3 1 1) (NCHW 1 3 224 224) = Inr (NF 1 10)"
  "and_then (MnasNet_init 1000) (\<lambda>m. MnasNet_forward training m (NCHW 2 3 224 224))
     = Inr (NF 2 1000)"
  using ResNet18_forward_shape [where B = 1 and K = 10 and training = training]
    VGG19_forward_shape [where B = 1 and K = 10 and training = training]
    MnasNet_forward_shape [where B = 2 and K = 1000 and training = training]
  by simp_all

subsection \<open>SqueezeNet: what the version switch and the features would give\<close>

lemma select_features_supported:
  "select_features ''1_0'' = Inr features_1_0"
  "select_features ''1_1'' = Inr features_1_1"
  by (simp_all add: select_features_def)

lemma select_features_unsupported:
  "version \<noteq> ''1_0'' \<Longrightarrow> version \<noteq> ''1_1'' \<Longrightarrow>
   \<exists>msg. select_features version = Inl (ValueError msg)"
  by (simp add: select_features_def)

lemma features_1_0_canonical:
  "chain (map (feature_forward training) features_1_0) (NCHW B 3 224 224)
     = Inr (NCHW B 512 13 13)"
  by (simp add: features_1_0_def Fire_forward_def Fire_init_def shape_defs)

lemma features_1_1_canonical:
  "chain (map (feature_forward training) features_1_1) (NCHW B 3 224 224)
     = Inr (NCHW B 512 13 13)"
  by (simp add: features_1_1_def Fire_forward_def Fire_init_def shape_defs)

text \<open>
  Were the two names bound, the constructor would refuse every version but "1_0" and
  "1_1" with its ValueError, and the model of either version would map the canonical
  input to (B, K).
\<close>

lemma SqueezeNet_with_names_bound_unsupported:
  assumes "''_log_api_usage_once'' \<in> set globals" and "''init'' \<in> set globals"
    and "version \<noteq> ''1_0''" and "version \<noteq> ''1_1''"
  shows "\<exists>msg. SqueezeNet_init_in globals version K = Inl (ValueError msg)"
  using assms by (simp add: SqueezeNet_init_in_def global_name_def select_features_def)

lemma SqueezeNet_with_names_bound_forward:
  assumes "''_log_api_usage_once'' \<in> set globals" and "''init'' \<in> set globals"
    and "version = ''1_0'' \<or> version = ''1_1''" and "0 < K"
  shows "and_then (SqueezeNet_init_in globals version K)
           (\<lambda>m. SqueezeNet_forward training m (NCHW B 3 224 224)) = Inr (NF B K)"
  using assms features_1_0_canonical [of training B] features_1_1_canonical [of training B]
  by (auto simp add: SqueezeNet_init_in_def global_name_def select_features_def
      SqueezeNet_forward_def shape_defs)

text \<open>
  Claim C1 (a defect of the code).  Every one of the five architectures, built for \<open>K\<close>
  classes, should map a batch of \<open>B\<close> canonical inputs to shape (B, K).  The lemmas above
  show it for VGG19, ResNet18, MnasNet and (outside single-image training batches)
  MobileNetV3.  SqueezeNet never gets as far as \<^verbatim>\<open>forward\<close>: the first statement of its
  constructor after \<^verbatim>\<open>super().__init__()\<close> calls \<^verbatim>\<open>_log_api_usage_once\<close>, a name the
  module neither imports nor defines, so \<^verbatim>\<open>SqueezeNet(version="1_0", num_classes=10)\<close>
  raises NameError and there is no model to apply to the input (1, 3, 224, 224).
\<close>

theorem SqueezeNet_forward_unreachable:
  "and_then (SqueezeNet_init ''1_0'' 10) (\<lambda>m. SqueezeNet_forward True m (NCHW 1 3 224 224))
     = Inl (NameError ''_log_api_usage_once'')"
  by (simp add: SqueezeNet_init_def SqueezeNet_init_in_def global_name_def module_globals_def)

text \<open>
  Claim C2 (a defect of the code).  Version "2_0" should be refused with the constructor's
  ValueError and versions "1_0" and "1_1" should construct a model whose features end in
  512 channels; the version switch and the feature lists do just that
  (\<open>select_features_unsupported\<close>, \<open>select_features_supported\<close>, \<open>features_1_0_canonical\<close>,
  \<open>features_1_1_canonical\<close>, \<open>SqueezeNet_with_names_bound_unsupported\<close>).  But the constructor raises NameError for the missing name
  \<^verbatim>\<open>_log_api_usage_once\<close> before it looks at the version: no version string constructs a
  SqueezeNet, and "2_0" fails with NameError, not with the configuration error.
\<close>

theorem SqueezeNet_init_raises_NameError:
  "SqueezeNet_init ''1_0'' 1000 = Inl (NameError ''_log_api_usage_once'') \<and>
   SqueezeNet_init ''1_1'' 1000 = Inl (NameError ''_log_api_usage_once'') \<and>
   SqueezeNet_init ''2_0'' 1000 = Inl (NameError ''_log_api_usage_once'')"
  by (simp add: SqueezeNet_init_def SqueezeNet_init_in_def global_name_def module_globals_def)



subsection \<open>Fire modules\<close>

lemma Fire_forward_shape:
  "0 < h \<Longrightarrow> 0 < w \<Longrightarrow> 0 < s \<Longrightarrow> 0 < e1 \<Longrightarrow> 0 < e3 \<Longrightarrow>
   Fire_forward tr (Fire_init i s e1 e3) (NCHW b i h w) = Inr (NCHW b (e1 + e3) h w)"
  by (simp add: Fire_forward_def Fire_init_def conv_output_size_def)

lemma Fire_stages:
  "FireM f \<in> set features_1_0 \<or> FireM f \<in> set features_1_1 \<Longrightarrow>
   (\<exists>s e1 e3. f = Fire_init (inplanes f) s e1 e3 \<and> 0 < s \<and> 0 < e1 \<and> 0 < e3)"
  apply (simp add: features_1_0_def features_1_1_def)
  apply (elim disjE)
  apply (simp_all add: Fire_init_def)
  done

text \<open>
  Claim C7.  A Fire module built for (inplanes, squeeze_planes, expand1x1_planes,
  expand3x3_planes), all positive, applied to an input of \<open>inplanes\<close> channels (and
  non-empty height and width), returns the concatenation of its two expand paths:
  expand1x1_planes + expand3x3_planes channels at the height and width of the input.
  Every Fire stage of the two SqueezeNet feature schedules is such a module, so the same
  holds of each.
\<close>

theorem Fire_output_channels:
  assumes "0 < h" and "0 < w"
  shows "(0 < i \<and> 0 < s \<and> 0 < e1 \<and> 0 < e3 \<longrightarrow>
      Fire_forward training (Fire_init i s e1 e3) (NCHW b i h w) = Inr (NCHW b (e1 + e3) h w)) \<and>
    (\<forall>f. FireM f \<in> set features_1_0 \<or> FireM f \<in> set features_1_1 \<longrightarrow>
       (\<exists>s e1 e3. f = Fire_init (inplanes f) s e1 e3 \<and>
          Fire_forward training f (NCHW b (inplanes f) h w) = Inr (NCHW b (e1 + e3) h w)))"
proof (intro conjI allI impI)
  assume "0 < i \<and> 0 < s \<and> 0 < e1 \<and> 0 < e3"
  then show "Fire_forward training (Fire_init i s e1 e3) (NCHW b i h w) = Inr (NCHW b (e1 + e3) h w)"
    using assms by (simp add: Fire_forward_shape)
next
  fix f
  assume "FireM f \<in> set features_1_0 \<or> FireM f \<in> set features_1_1"
  then obtain s e1 e3 where f: "f = Fire_init (inplanes f) s e1 e3"
    and p: "0 < s" "0 < e1" "0 < e3"
    using Fire_stages by blast
  have "Fire_forward training (Fire_init (inplanes f) s e1 e3) (NCHW b (inplanes f) h w)
      = Inr (NCHW b (e1 + e3) h w)"
    using assms p by (simp add: Fire_forward_shape)
  with f show "\<exists>s e1 e3. f = Fire_init (inplanes f) s e1 e3 \<and>
          Fire_forward training f (NCHW b (inplanes f) h w) = Inr (NCHW b (e1 + e3) h w)"
    by metis
qed

theorem Fire_output_channels_witness:
  "Fire_forward True (Fire_init 96 16 64 64) (NCHW 1 96 54 54) = Inr (NCHW 1 128 54 54) \<and>
   FireM (Fire_init 512 64 256 256) \<in> set features_1_1 \<and>
   Fire_forward True (Fire_init 512 64 256 256) (NCHW 1 512 54 54) = Inr (NCHW 1 512 54 54)"
proof -
  have h: "(0::nat) < 54" by simp
  have m: "FireM (Fire_init 512 64 256 256) \<in> set features_1_1" by (simp add: features_1_1_def)
  have i: "inplanes (Fire_init 512 64 256 256) = 512" by (simp add: Fire_init_def)
  from Fire_output_channels [OF h h, where training = True and i = 96 and s = 16 and ?e1.0 = 64
      and ?e3.0 = 64 and b = 1]
  have a: "Fire_forward True (Fire_init 96 16 64 64) (NCHW 1 96 54 54) = Inr (NCHW 1 128 54 54)"
    and b: "\<forall>f. FireM f \<in> set features_1_0 \<or> FireM f \<in> set features_1_1 \<longrightarrow>
       (\<exists>s e1 e3. f = Fire_init (inplanes f) s e1 e3 \<and>
          Fire_forward True f (NCHW 1 (inplanes f) 54 54) = Inr (NCHW 1 (e1 + e3) 54 54))"
    by simp_all
  from b m obtain s e1 e3 where e: "Fire_init 512 64 256 256 = Fire_init 512 s e1 e3"
    and r: "Fire_forward True (Fire_init 512 64 256 256) (NCHW 1 512 54 54) = Inr (NCHW 1 (e1 + e3) 54 54)"
    using i by (metis)
  from e have "e1 = 256 \<and> e3 = 256" by (simp add: Fire_init_def)
  with r a m show ?thesis by simp
qed

subsection \<open>Output sizes of convolutions and pooling windows\<close>













subsection \<open>Residual Blocks of ResNet18\<close>

lemma ResNet18_blocks_eq:
  "ResNet18_blocks K =
     [Block_init 64 64 None 1, Block_init 64 64 None 1,
      Block_init 64 128 (Some (ResNet18_identity_downsample 64 128)) 2, Block_init 128 128 None 1,
      Block_init 128 256 (Some (ResNet18_identity_downsample 128 256)) 2, Block_init 256 256 None 1,
      Block_init 256 512 (Some (ResNet18_identity_downsample 256 512)) 2, Block_init 512 512 None 1]"
  by (simp add: ResNet18_blocks_def ResNet18_init_def make_layer_def)

text \<open>
  \<^verbatim>\<open>__make_layer\<close> itself looks at the stride only: the first block of a group gets the
  downsample path when the stride is not 1, the second block never.
\<close>

lemma make_layer_downsample:
  "map (\<lambda>blk. identity_downsample blk \<noteq> None) (make_layer cin cout s) = [s \<noteq> 1, False]"
  by (simp add: make_layer_def Block_init_def)

lemma Block_main_shape:
  "Block_main tr (Block_init cin cout ds s) x = Inr y \<Longrightarrow>
     \<exists>b h w. x = NCHW b cin h w \<and> 0 < h \<and> 0 < w \<and> 0 < s \<and> y = NCHW b cout ((h - 1) div s + 1) ((w - 1) div s + 1)"
  apply (cases x)
   apply (auto simp add: Block_main_def Block_init_def conv_output_size_def and_then_def split: if_splits sum.splits)
  done

lemma Block_main_returns:
  assumes "0 < h" "0 < w" "0 < s" "0 < cout"
    "tr \<longrightarrow> b * ((h - 1) div s + 1) * ((w - 1) div s + 1) \<noteq> 1"
  shows "Block_main tr (Block_init cin cout ds s) (NCHW b cin h w) = Inr (NCHW b cout ((h - 1) div s + 1) ((w - 1) div s + 1))"
  using assms
  by (auto simp add: Block_main_def Block_init_def conv_output_size_def)

lemma downsample_shape:
  "Sequential tr (ResNet18_identity_downsample cin cout) x = Inr y \<Longrightarrow>
     \<exists>b h w. x = NCHW b cin h w \<and> 0 < h \<and> 0 < w \<and> y = NCHW b cout ((h - 1) div 2 + 1) ((w - 1) div 2 + 1)"
  apply (cases x)
   apply (auto simp add: Sequential_def ResNet18_identity_downsample_def conv_output_size_def and_then_def split: if_splits sum.splits)
  done

lemma downsample_returns:
  assumes "0 < h" "0 < w" "0 < cout"
    "tr \<longrightarrow> b * ((h - 1) div 2 + 1) * ((w - 1) div 2 + 1) \<noteq> 1"
  shows "Sequential tr (ResNet18_identity_downsample cin cout) (NCHW b cin h w) = Inr (NCHW b cout ((h - 1) div 2 + 1) ((w - 1) div 2 + 1))"
  using assms
  by (auto simp add: Sequential_def ResNet18_identity_downsample_def conv_output_size_def)

lemma iadd_same: "iadd x x = Inr x"
  by (cases x) (simp_all add: iadd_def broadcast_dim_def)

lemma Block_forward_from_paths:
  "Block_main tr blk x = Inr y \<Longrightarrow> Block_shortcut tr blk x = Inr y \<Longrightarrow>
   blk_relu blk = ReLU \<Longrightarrow> Block_forward tr blk x = Inr y"
  by (simp add: Block_forward_def iadd_same)

lemma plain_Block_matches:
  fixes c :: nat
  assumes pos: "0 < c"
  defines "blk \<equiv> Block_init c c None 1"
  shows "blk_conv1 blk = Conv2d c c 3 1 1 1
   \<and> ((identity_downsample blk \<noteq> None) = ((1::nat) \<noteq> 1 \<or> c \<noteq> c))
   \<and> (\<forall>training x y i. Block_main training blk x = Inr y \<and> Block_shortcut training blk x = Inr i
         \<longrightarrow> y = i \<and> iadd y i = Inr y)
   \<and> (\<forall>training b h w. 0 < h \<and> 0 < w \<and>
         (training \<longrightarrow> b * ((h - 1) div 1 + 1) * ((w - 1) div 1 + 1) \<noteq> 1) \<longrightarrow>
        Block_main training blk (NCHW b c h w) = Inr (NCHW b c ((h - 1) div 1 + 1) ((w - 1) div 1 + 1))
      \<and> Block_shortcut training blk (NCHW b c h w) = Inr (NCHW b c ((h - 1) div 1 + 1) ((w - 1) div 1 + 1))
      \<and> Block_forward training blk (NCHW b c h w) = Inr (NCHW b c ((h - 1) div 1 + 1) ((w - 1) div 1 + 1)))"
proof (intro conjI allI impI)
  show "blk_conv1 blk = Conv2d c c 3 1 1 1"
    by (simp add: blk_def Block_init_def)
  show "(identity_downsample blk \<noteq> None) = ((1::nat) \<noteq> 1 \<or> c \<noteq> c)"
    by (simp add: blk_def Block_init_def)
next
  fix training x y i
  assume a: "Block_main training blk x = Inr y \<and> Block_shortcut training blk x = Inr i"
  then have i: "i = x" by (simp add: blk_def Block_shortcut_def Block_init_def)
  from a obtain b h w where "x = NCHW b c h w" "0 < h" "0 < w"
      "y = NCHW b c ((h - 1) div 1 + 1) ((w - 1) div 1 + 1)"
    unfolding blk_def using Block_main_shape by blast
  then show "y = i" using i by simp
  then show "iadd y i = Inr y" by (simp add: iadd_same)
next
  fix training :: bool and b h w :: nat
  assume a: "0 < h \<and> 0 < w \<and> (training \<longrightarrow> b * ((h - 1) div 1 + 1) * ((w - 1) div 1 + 1) \<noteq> 1)"
  then show m: "Block_main training blk (NCHW b c h w) = Inr (NCHW b c ((h - 1) div 1 + 1) ((w - 1) div 1 + 1))"
    unfolding blk_def using pos by (intro Block_main_returns) auto
  from a show k: "Block_shortcut training blk (NCHW b c h w) = Inr (NCHW b c ((h - 1) div 1 + 1) ((w - 1) div 1 + 1))"
    by (simp add: blk_def Block_shortcut_def Block_init_def)
  from m k show "Block_forward training blk (NCHW b c h w) = Inr (NCHW b c ((h - 1) div 1 + 1) ((w - 1) div 1 + 1))"
    by (rule Block_forward_from_paths) (simp add: blk_def Block_init_def)
qed

lemma downsample_Block_matches:
  fixes cin cout :: nat
  assumes pos: "0 < cout"
  defines "blk \<equiv> Block_init cin cout (Some (ResNet18_identity_downsample cin cout)) 2"
  shows "blk_conv1 blk = Conv2d cin cout 3 2 1 1
   \<and> ((identity_downsample blk \<noteq> None) = ((2::nat) \<noteq> 1 \<or> cin \<noteq> cout))
   \<and> (\<forall>training x y i. Block_main training blk x = Inr y \<and> Block_shortcut training blk x = Inr i
         \<longrightarrow> y = i \<and> iadd y i = Inr y)
   \<and> (\<forall>training b h w. 0 < h \<and> 0 < w \<and>
         (training \<longrightarrow> b * ((h - 1) div 2 + 1) * ((w - 1) div 2 + 1) \<noteq> 1) \<longrightarrow>
        Block_main training blk (NCHW b cin h w) = Inr (NCHW b cout ((h - 1) div 2 + 1) ((w - 1) div 2 + 1))
      \<and> Block_shortcut training blk (NCHW b cin h w) = Inr (NCHW b cout ((h - 1) div 2 + 1) ((w - 1) div 2 + 1))
      \<and> Block_forward training blk (NCHW b cin h w) = Inr (NCHW b cout ((h - 1) div 2 + 1) ((w - 1) div 2 + 1)))"
proof (intro conjI allI impI)
  show "blk_conv1 blk = Conv2d cin cout 3 2 1 1"
    by (simp add: blk_def Block_init_def)
  show "(identity_downsample blk \<noteq> None) = ((2::nat) \<noteq> 1 \<or> cin \<noteq> cout)"
    by (simp add: blk_def Block_init_def)
next
  fix training x y i
  assume a: "Block_main training blk x = Inr y \<and> Block_shortcut training blk x = Inr i"
  then have "Sequential training (ResNet18_identity_downsample cin cout) x = Inr i"
    by (simp add: blk_def Block_shortcut_def Block_init_def)
  then obtain b h w where x: "x = NCHW b cin h w"
      and i: "i = NCHW b cout ((h - 1) div 2 + 1) ((w - 1) div 2 + 1)"
    using downsample_shape by blast
  from a obtain b' h' w' where x': "x = NCHW b' cin h' w'"
      and y: "y = NCHW b' cout ((h' - 1) div 2 + 1) ((w' - 1) div 2 + 1)"
    unfolding blk_def using Block_main_shape by blast
  from x x' i y show "y = i" by simp
  then show "iadd y i = Inr y" by (simp add: iadd_same)
next
  fix training :: bool and b h w :: nat
  assume a: "0 < h \<and> 0 < w \<and> (training \<longrightarrow> b * ((h - 1) div 2 + 1) * ((w - 1) div 2 + 1) \<noteq> 1)"
  then show m: "Block_main training blk (NCHW b cin h w) = Inr (NCHW b cout ((h - 1) div 2 + 1) ((w - 1) div 2 + 1))"
    unfolding blk_def using pos by (intro Block_main_returns) auto
  from a have "Sequential training (ResNet18_identity_downsample cin cout) (NCHW b cin h w)
      = Inr (NCHW b cout ((h - 1) div 2 + 1) ((w - 1) div 2 + 1))"
    using pos by (intro downsample_returns) auto
  then show k: "Block_shortcut training blk (NCHW b cin h w) = Inr (NCHW b cout ((h - 1) div 2 + 1) ((w - 1) div 2 + 1))"
    by (simp add: blk_def Block_shortcut_def Block_init_def)
  from m k show "Block_forward training blk (NCHW b cin h w) = Inr (NCHW b cout ((h - 1) div 2 + 1) ((w - 1) div 2 + 1))"
    by (rule Block_forward_from_paths) (simp add: blk_def Block_init_def)
qed

text \<open>
  Claim C4.  Each of the eight Residual Blocks of ResNet18, with the (in_channels,
  out_channels, stride) of its first convolution, has a downsample path exactly when the
  stride is not 1 or the channel counts differ.  Whenever its main path and its shortcut
  path (identity or downsample) both return, they return the same shape, so the in-place
  add keeps that shape; and on every input of \<open>in_channels\<close> channels with non-empty height
  and width both paths do return (in training mode, provided batch normalisation sees more
  than one value per channel), with out_channels channels and the strided size.
\<close>

theorem ResNet18_block_shortcut_matches:
  assumes "blk \<in> set (ResNet18_blocks num_classes)"
  shows "\<exists>cin cout s.
     blk_conv1 blk = Conv2d cin cout 3 s 1 1
   \<and> ((identity_downsample blk \<noteq> None) = (s \<noteq> 1 \<or> cin \<noteq> cout))
   \<and> (\<forall>training x y i. Block_main training blk x = Inr y \<and> Block_shortcut training blk x = Inr i
         \<longrightarrow> y = i \<and> iadd y i = Inr y)
   \<and> (\<forall>training b h w. 0 < h \<and> 0 < w \<and>
         (training \<longrightarrow> b * ((h - 1) div s + 1) * ((w - 1) div s + 1) \<noteq> 1) \<longrightarrow>
        Block_main training blk (NCHW b cin h w) = Inr (NCHW b cout ((h - 1) div s + 1) ((w - 1) div s + 1))
      \<and> Block_shortcut training blk (NCHW b cin h w) = Inr (NCHW b cout ((h - 1) div s + 1) ((w - 1) div s + 1))
      \<and> Block_forward training blk (NCHW b cin h w) = Inr (NCHW b cout ((h - 1) div s + 1) ((w - 1) div s + 1)))"
proof -
  from assms consider
      (plain) c where "blk = Block_init c c None 1" and "0 < c"
    | (down) cin cout where "blk = Block_init cin cout (Some (ResNet18_identity_downsample cin cout)) 2"
        and "0 < cout"
    unfolding ResNet18_blocks_eq by auto
  then show ?thesis
  proof cases
    case plain
    show ?thesis unfolding plain(1)
      by (rule exI [of _ c], rule exI [of _ c], rule exI [of _ 1])
         (rule plain_Block_matches [OF plain(2)])
  next
    case down
    show ?thesis unfolding down(1)
      by (rule exI [of _ cin], rule exI [of _ cout], rule exI [of _ 2])
         (rule downsample_Block_matches [OF down(2)])
  qed
qed

theorem ResNet18_block_shortcut_matches_witness:
  "Block_init 64 128 (Some (ResNet18_identity_downsample 64 128)) 2 \<in> set (ResNet18_blocks 10)
   \<and> identity_downsample (Block_init 64 128 (Some (ResNet18_identity_downsample 64 128)) 2) \<noteq> None
   \<and> Block_main True (Block_init 64 128 (Some (ResNet18_identity_downsample 64 128)) 2)
         (NCHW 1 64 56 56) = Inr (NCHW 1 128 28 28)
   \<and> Block_shortcut True (Block_init 64 128 (Some (ResNet18_identity_downsample 64 128)) 2)
         (NCHW 1 64 56 56) = Inr (NCHW 1 128 28 28)
   \<and> Block_forward True (Block_init 64 128 (Some (ResNet18_identity_downsample 64 128)) 2)
         (NCHW 1 64 56 56) = Inr (NCHW 1 128 28 28)"
proof -
  let ?blk = "Block_init 64 128 (Some (ResNet18_identity_downsample 64 128)) 2"
  have mem: "?blk \<in> set (ResNet18_blocks 10)"
    by (simp add: ResNet18_blocks_eq)
  from ResNet18_block_shortcut_matches [OF mem] show ?thesis
  proof (elim exE conjE)
    fix cin cout s
    assume c: "blk_conv1 ?blk = Conv2d cin cout 3 s 1 1"
      and d: "(identity_downsample ?blk \<noteq> None) = (s \<noteq> 1 \<or> cin \<noteq> cout)"
      and r: "\<forall>training b h w. 0 < h \<and> 0 < w \<and>
         (training \<longrightarrow> b * ((h - 1) div s + 1) * ((w - 1) div s + 1) \<noteq> 1) \<longrightarrow>
        Block_main training ?blk (NCHW b cin h w) = Inr (NCHW b cout ((h - 1) div s + 1) ((w - 1) div s + 1))
      \<and> Block_shortcut training ?blk (NCHW b cin h w) = Inr (NCHW b cout ((h - 1) div s + 1) ((w - 1) div s + 1))
      \<and> Block_forward training ?blk (NCHW b cin h w) = Inr (NCHW b cout ((h - 1) div s + 1) ((w - 1) div s + 1))"
    from c have e: "cin = 64" "cout = 128" "s = 2" by (simp_all add: Block_init_def)
    have n: "identity_downsample ?blk \<noteq> None" using d e by simp
    have "0 < (56::nat) \<and> 0 < (56::nat) \<and>
        (True \<longrightarrow> (1::nat) * ((56 - 1) div 2 + 1) * ((56 - 1) div 2 + 1) \<noteq> 1)" by simp
    with r [rule_format, where training = True and b = 1 and h = 56 and w = 56] e
    have "Block_main True ?blk (NCHW 1 64 56 56) = Inr (NCHW 1 128 ((56 - 1) div 2 + 1) ((56 - 1) div 2 + 1))
        \<and> Block_shortcut True ?blk (NCHW 1 64 56 56) = Inr (NCHW 1 128 ((56 - 1) div 2 + 1) ((56 - 1) div 2 + 1))
        \<and> Block_forward True ?blk (NCHW 1 64 56 56) = Inr (NCHW 1 128 ((56 - 1) div 2 + 1) ((56 - 1) div 2 + 1))"
      by blast
    moreover have "(56 - 1) div 2 + 1 = (28::nat)" by simp
    ultimately show ?thesis using mem n by simp
  qed
qed


subsection \<open>Inverted Residual blocks\<close>

lemma and_then_return [simp]: "and_then r Inr = r"
  by (cases r) simp_all

lemma chain_Nil_eq [simp]: "chain [] = Inr"
  by (rule ext) simp

lemma chain_single [simp]: "chain [h] v = h v"
  by simp

lemma chain_three: "chain [f, g, h] x = and_then (f x) (\<lambda>y. and_then (g y) h)"
  by (auto simp add: and_then_def split: sum.splits)

lemma InvertedResidualBlock_init_returns:
  "0 < i \<Longrightarrow> 0 < e \<Longrightarrow> \<exists>m. InvertedResidualBlock_init i out s e = Inr m"
  by (simp add: InvertedResidualBlock_init_def grouped_Conv2d_def Let_def)

lemma InvertedResidualBlock_init_Inr:
  assumes "InvertedResidualBlock_init i out s e = Inr m"
  shows "0 < i * e"
    and "irb_use_residual m = (s = 1 \<and> i = out)"
    and "irb_block m =
           (if e \<noteq> 1 then [Conv2d i (i * e) 1 1 0 1, BatchNorm2d (i * e), Hswish] else [])
           @ [Conv2d (i * e) (i * e) 3 s 1 (i * e), BatchNorm2d (i * e), Hswish,
              Conv2d (i * e) out 1 1 0 1, BatchNorm2d out]"
  using assms
  by (auto simp add: InvertedResidualBlock_init_def grouped_Conv2d_def Let_def split: if_splits)

lemma InvertedResidual_init_Inr:
  assumes "InvertedResidual_init i out k s e = Inr m"
  shows "0 < i * e"
    and "ir_use_residual m = (s = 1 \<and> i = out)"
    and "ir_stride m = s"
    and "ir_expand m = [Conv2d i (i * e) 1 1 0 1, BatchNorm2d (i * e), ReLU6]"
    and "ir_depthwise m = [Conv2d (i * e) (i * e) k s (k div 2) (i * e), BatchNorm2d (i * e), ReLU6]"
    and "ir_project m = [Conv2d (i * e) out 1 1 0 1, BatchNorm2d out]"
  using assms
  by (auto simp add: InvertedResidual_init_def grouped_Conv2d_def Let_def split: if_splits)


text \<open>
  In the two networks: no block of MobileNetV3 adds its input (every stride is 2), and
  eight of the fifteen blocks of MnasNet do.
\<close>

lemma residual_blocks_of_the_networks:
  "and_then (MobileNetV3_init K) (\<lambda>m. Inr (map irb_use_residual (bottlenecks m)))
     = Inr [False, False, False, False, False, False, False, False]"
  "and_then (MnasNet_init K) (\<lambda>m. Inr (map ir_use_residual (layers m)))
     = Inr [False, False, True, False, True, True, False, True, True, False, True,
            False, True, True, False]"
  by (simp_all add: MobileNetV3_init_def MobileNetV3_schedule_def InvertedResidualBlock_init_def
      MnasNet_init_def MnasNet_schedule_def InvertedResidual_init_def grouped_Conv2d_def)

text \<open>
  Where the residual add applies, the projected tensor has the shape of the input (for the
  odd kernel sizes MnasNet uses), so the sum is a plain elementwise one.
\<close>

lemma IRB_residual_same_shape:
  assumes "InvertedResidualBlock_init c c 1 e = Inr m"
    and "Sequential training (irb_block m) x = Inr y"
  shows "y = x"
  using assms(2) InvertedResidualBlock_init_Inr(1)[OF assms(1)]
  unfolding InvertedResidualBlock_init_Inr(3)[OF assms(1)]
  apply (cases x)
  apply (auto simp add: Sequential_def conv_output_size_def and_then_def split: if_splits sum.splits)
  done

lemma IR_residual_same_shape:
  assumes "InvertedResidual_init c c k 1 e = Inr m"
    and "odd k"
    and "InvertedResidual_stages training m x = Inr y"
  shows "y = x"
proof -
  from \<open>odd k\<close> obtain j where k: "k = 2 * j + 1" by (auto elim: oddE)
  show ?thesis
    using assms(3) InvertedResidual_init_Inr(1)[OF assms(1)]
    unfolding InvertedResidual_stages_def InvertedResidual_init_Inr(4,5,6)[OF assms(1)] k
    apply (cases x)
     apply (auto simp add: Sequential_def conv_output_size_def and_then_def split: if_splits sum.splits)
    done
qed


text \<open>
  Claim C6 (as amended).  MobileNetV3's \<^verbatim>\<open>InvertedResidualBlock\<close> leaves the expand stage
  out when expansion_factor = 1 (the block is then depthwise and project only) and starts
  with it otherwise.  MnasNet's \<^verbatim>\<open>InvertedResidual\<close> always has the expand stage, a 1 x 1
  convolution to in_channels * expansion_factor channels with normalisation and ReLU6,
  and always applies it first, also at expansion factor 1.
\<close>

theorem expand_stage_presence:
  "(InvertedResidualBlock_init i out s 1 = Inr m \<longrightarrow>
      irb_block m = [Conv2d i i 3 s 1 i, BatchNorm2d i, Hswish,
                     Conv2d i out 1 1 0 1, BatchNorm2d out])
   \<and> (e \<noteq> 1 \<and> InvertedResidualBlock_init i out s e = Inr m \<longrightarrow>
      irb_block m = [Conv2d i (i * e) 1 1 0 1, BatchNorm2d (i * e), Hswish,
                     Conv2d (i * e) (i * e) 3 s 1 (i * e), BatchNorm2d (i * e), Hswish,
                     Conv2d (i * e) out 1 1 0 1, BatchNorm2d out])
   \<and> (InvertedResidual_init i out k s e = Inr m' \<longrightarrow>
      ir_expand m' = [Conv2d i (i * e) 1 1 0 1, BatchNorm2d (i * e), ReLU6]
      \<and> InvertedResidual_stages training m' x =
          and_then (Sequential training (ir_expand m') x) (\<lambda>y.
          and_then (Sequential training (ir_depthwise m') y) (\<lambda>z.
          Sequential training (ir_project m') z)))"
proof (intro conjI impI)
  assume "InvertedResidualBlock_init i out s 1 = Inr m"
  from InvertedResidualBlock_init_Inr(3) [OF this]
  show "irb_block m = [Conv2d i i 3 s 1 i, BatchNorm2d i, Hswish,
                     Conv2d i out 1 1 0 1, BatchNorm2d out]"
    by simp
next
  assume a: "e \<noteq> 1 \<and> InvertedResidualBlock_init i out s e = Inr m"
  then have "InvertedResidualBlock_init i out s e = Inr m" by simp
  from InvertedResidualBlock_init_Inr(3) [OF this] a
  show "irb_block m = [Conv2d i (i * e) 1 1 0 1, BatchNorm2d (i * e), Hswish,
                     Conv2d (i * e) (i * e) 3 s 1 (i * e), BatchNorm2d (i * e), Hswish,
                     Conv2d (i * e) out 1 1 0 1, BatchNorm2d out]"
    by simp
next
  assume "InvertedResidual_init i out k s e = Inr m'"
  from InvertedResidual_init_Inr(4) [OF this]
  show "ir_expand m' = [Conv2d i (i * e) 1 1 0 1, BatchNorm2d (i * e), ReLU6]" .
  show "InvertedResidual_stages training m' x =
          and_then (Sequential training (ir_expand m') x) (\<lambda>y.
          and_then (Sequential training (ir_depthwise m') y) (\<lambda>z.
          Sequential training (ir_project m') z))"
    unfolding InvertedResidual_stages_def by (rule chain_three)
qed

text \<open>
  The claim as stated fails at the first block of MnasNet, \<^verbatim>\<open>InvertedResidual(32, 16, 3, 1, 1)\<close>:
  its expansion factor is 1 and it has an expand stage of three layers.
\<close>

theorem MnasNet_first_block_has_expand:
  "(32, 16, 3, 1, 1) \<in> set MnasNet_schedule
   \<and> and_then (InvertedResidual_init 32 16 3 1 1) (\<lambda>m. Inr (ir_expand m))
       = Inr [Conv2d 32 32 1 1 0 1, BatchNorm2d 32, ReLU6]
   \<and> and_then (InvertedResidual_init 32 16 3 1 1) (\<lambda>m. Inr (ir_expand m)) \<noteq> Inr []"
  by (simp add: MnasNet_schedule_def InvertedResidual_init_def grouped_Conv2d_def)

theorem expand_stage_presence_witness:
  "InvertedResidualBlock_init 16 16 2 1 =
     Inr \<lparr> irb_use_residual = False,
           irb_block = [Conv2d 16 16 3 2 1 16, BatchNorm2d 16, Hswish,
                        Conv2d 16 16 1 1 0 1, BatchNorm2d 16] \<rparr>
   \<and> InvertedResidualBlock_init 16 24 2 2 =
     Inr \<lparr> irb_use_residual = False,
           irb_block = [Conv2d 16 32 1 1 0 1, BatchNorm2d 32, Hswish,
                        Conv2d 32 32 3 2 1 32, BatchNorm2d 32, Hswish,
                        Conv2d 32 24 1 1 0 1, BatchNorm2d 24] \<rparr>
   \<and> InvertedResidual_init 32 16 3 1 1 =
     Inr \<lparr> ir_stride = 1, ir_use_residual = False,
           ir_expand = [Conv2d 32 32 1 1 0 1, BatchNorm2d 32, ReLU6],
           ir_depthwise = [Conv2d 32 32 3 1 1 32, BatchNorm2d 32, ReLU6],
           ir_project = [Conv2d 32 16 1 1 0 1, BatchNorm2d 16] \<rparr>"
proof -
  obtain m1 where m1: "InvertedResidualBlock_init 16 16 2 1 = Inr m1"
    using InvertedResidualBlock_init_returns [of 16 1 16 2] by auto
  obtain m2 where m2: "InvertedResidualBlock_init 16 24 2 2 = Inr m2"
    using InvertedResidualBlock_init_returns [of 16 2 24 2] by auto
  obtain m3 where m3: "InvertedResidual_init 32 16 3 1 1 = Inr m3"
    by (simp add: InvertedResidual_init_def grouped_Conv2d_def)
  have b1: "irb_block m1 = [Conv2d 16 16 3 2 1 16, BatchNorm2d 16, Hswish,
                        Conv2d 16 16 1 1 0 1, BatchNorm2d 16]"
    using expand_stage_presence [where i = 16 and out = 16 and s = 2 and m = m1] m1 by simp
  have b2: "irb_block m2 = [Conv2d 16 32 1 1 0 1, BatchNorm2d 32, Hswish,
                        Conv2d 32 32 3 2 1 32, BatchNorm2d 32, Hswish,
                        Conv2d 32 24 1 1 0 1, BatchNorm2d 24]"
    using expand_stage_presence [where i = 16 and out = 24 and s = 2 and e = 2 and m = m2] m2
    by simp
  have b3: "ir_expand m3 = [Conv2d 32 32 1 1 0 1, BatchNorm2d 32, ReLU6]"
    using expand_stage_presence [where i = 32 and out = 16 and k = 3 and s = 1 and e = 1 and m' = m3] m3
    by simp
  have r1: "irb_use_residual m1 = False" using InvertedResidualBlock_init_Inr(2) [OF m1] by simp
  have r2: "irb_use_residual m2 = False" using InvertedResidualBlock_init_Inr(2) [OF m2] by simp
  have e1: "m1 = \<lparr> irb_use_residual = False,
           irb_block = [Conv2d 16 16 3 2 1 16, BatchNorm2d 16, Hswish,
                        Conv2d 16 16 1 1 0 1, BatchNorm2d 16] \<rparr>"
    using b1 r1 by (cases m1) simp
  have e2: "m2 = \<lparr> irb_use_residual = False,
           irb_block = [Conv2d 16 32 1 1 0 1, BatchNorm2d 32, Hswish,
                        Conv2d 32 32 3 2 1 32, BatchNorm2d 32, Hswish,
                        Conv2d 32 24 1 1 0 1, BatchNorm2d 24] \<rparr>"
    using b2 r2 by (cases m2) simp
  have e3: "m3 = \<lparr> ir_stride = 1, ir_use_residual = False,
           ir_expand = [Conv2d 32 32 1 1 0 1, BatchNorm2d 32, ReLU6],
           ir_depthwise = [Conv2d 32 32 3 1 1 32, BatchNorm2d 32, ReLU6],
           ir_project = [Conv2d 32 16 1 1 0 1, BatchNorm2d 16] \<rparr>"
    using b3 InvertedResidual_init_Inr(2,3,5,6) [OF m3] by (cases m3) simp
  show ?thesis using m1 m2 m3 e1 e2 e3 by simp
qed

subsection \<open>The assembly of MobileNetV3\<close>

lemma MobileNetV3_init_eq:
  "MobileNetV3_init K = Inr m \<Longrightarrow>
     mb_stem m = [Conv2d 3 16 3 2 1 1, BatchNorm2d 16, Hswish]
     \<and> length (bottlenecks m) = 8
     \<and> mb_classifier m =
          \<lparr> cl_avgpool = AdaptiveAvgPool2d, cl_conv1 = Conv2d 1280 1280 1 1 0 1,
            cl_hswish1 = Hswish, cl_dropout = Dropout, cl_conv2 = Conv2d 1280 K 1 1 0 1 \<rparr>"
  by (auto simp add: MobileNetV3_init_def MobileNetV3_schedule_def
      InvertedResidualBlock_init_def grouped_Conv2d_def MobileNetV3_Stem_init_def Classifier_init_def)

lemma le_8_cases: "n \<le> 8 \<Longrightarrow> n \<in> {0, 1, 2, 3, 4, 5, 6, 7, 8::nat}"
  by simp arith

lemma MobileNetV3_trace:
  assumes "MobileNetV3_init K = Inr m" and "n \<le> 8"
  shows "chain (map (InvertedResidualBlock_forward False) (take n (bottlenecks m))) (NCHW B 16 112 112)
     = Inr (NCHW B ([16, 16, 24, 40, 80, 160, 320, 640, 1280] ! n)
                   ([112, 56, 28, 14, 7, 4, 2, 1, 1] ! n)
                   ([112, 56, 28, 14, 7, 4, 2, 1, 1] ! n))"
proof -
  from assms(1) have b: "bottlenecks m =
    [\<lparr> irb_use_residual = False, irb_block = [Conv2d 16 16 3 2 1 16, BatchNorm2d 16, Hswish, Conv2d 16 16 1 1 0 1, BatchNorm2d 16] \<rparr>,
     \<lparr> irb_use_residual = False, irb_block = [Conv2d 16 32 1 1 0 1, BatchNorm2d 32, Hswish, Conv2d 32 32 3 2 1 32, BatchNorm2d 32, Hswish, Conv2d 32 24 1 1 0 1, BatchNorm2d 24] \<rparr>,
     \<lparr> irb_use_residual = False, irb_block = [Conv2d 24 48 1 1 0 1, BatchNorm2d 48, Hswish, Conv2d 48 48 3 2 1 48, BatchNorm2d 48, Hswish, Conv2d 48 40 1 1 0 1, BatchNorm2d 40] \<rparr>,
     \<lparr> irb_use_residual = False, irb_block = [Conv2d 40 40 3 2 1 40, BatchNorm2d 40, Hswish, Conv2d 40 80 1 1 0 1, BatchNorm2d 80] \<rparr>,
     \<lparr> irb_use_residual = False, irb_block = [Conv2d 80 160 1 1 0 1, BatchNorm2d 160, Hswish, Conv2d 160 160 3 2 1 160, BatchNorm2d 160, Hswish, Conv2d 160 160 1 1 0 1, BatchNorm2d 160] \<rparr>,
     \<lparr> irb_use_residual = False, irb_block = [Conv2d 160 160 3 2 1 160, BatchNorm2d 160, Hswish, Conv2d 160 320 1 1 0 1, BatchNorm2d 320] \<rparr>,
     \<lparr> irb_use_residual = False, irb_block = [Conv2d 320 320 3 2 1 320, BatchNorm2d 320, Hswish, Conv2d 320 640 1 1 0 1, BatchNorm2d 640] \<rparr>,
     \<lparr> irb_use_residual = False, irb_block = [Conv2d 640 640 3 2 1 640, BatchNorm2d 640, Hswish, Conv2d 640 1280 1 1 0 1, BatchNorm2d 1280] \<rparr>]"
    by (auto simp add: MobileNetV3_init_def MobileNetV3_schedule_def
      InvertedResidualBlock_init_def grouped_Conv2d_def)
  from le_8_cases [OF assms(2)] show ?thesis
    unfolding b
    by (elim insertE emptyE) (simp_all add: InvertedResidualBlock_forward_def shape_defs)
qed

lemma MobileNetV3_init_returns: "\<exists>m. MobileNetV3_init K = Inr m"
  by (simp add: MobileNetV3_init_def MobileNetV3_schedule_def
      InvertedResidualBlock_init_def grouped_Conv2d_def)

text \<open>
  Claim C3 (as amended).  MobileNetV3 is a stem, then exactly 8 Inverted Residual Blocks
  with output channels 16, 24, 40, 80, 160, 320, 640, 1280, expansion factors
  1, 2, 2, 1, 2, 1, 1, 1 and stride 2 in every block, then the classifier (global pool,
  1 x 1 convolution to 1280, hard-swish, dropout, 1 x 1 convolution to num_classes).  On the
  112 x 112 output of the stem the blocks produce, one after the other, the channel
  counts of the schedule and the sizes 56, 28, 14, 7, 4, 2, 1, 1: each block halves.
\<close>

theorem MobileNetV3_assembly:
  "map (\<lambda>(i, out, s, e). out) MobileNetV3_schedule = [16, 24, 40, 80, 160, 320, 640, 1280]
   \<and> map (\<lambda>(i, out, s, e). e) MobileNetV3_schedule = [1, 2, 2, 1, 2, 1, 1, 1]
   \<and> map (\<lambda>(i, out, s, e). s) MobileNetV3_schedule = [2, 2, 2, 2, 2, 2, 2, 2]
   \<and> (\<exists>m. MobileNetV3_init K = Inr m
        \<and> mb_stem m = [Conv2d 3 16 3 2 1 1, BatchNorm2d 16, Hswish]
        \<and> length (bottlenecks m) = 8
        \<and> (\<forall>n. n \<le> 8 \<longrightarrow>
             chain (map (InvertedResidualBlock_forward False) (take n (bottlenecks m)))
               (NCHW B 16 112 112)
             = Inr (NCHW B ([16, 16, 24, 40, 80, 160, 320, 640, 1280] ! n)
                           ([112, 56, 28, 14, 7, 4, 2, 1, 1] ! n)
                           ([112, 56, 28, 14, 7, 4, 2, 1, 1] ! n)))
        \<and> mb_classifier m =
             \<lparr> cl_avgpool = AdaptiveAvgPool2d, cl_conv1 = Conv2d 1280 1280 1 1 0 1,
               cl_hswish1 = Hswish, cl_dropout = Dropout, cl_conv2 = Conv2d 1280 K 1 1 0 1 \<rparr>
        \<and> MobileNetV3_forward training m x =
             and_then (Sequential training (mb_stem m) x) (\<lambda>y.
             and_then (chain (map (InvertedResidualBlock_forward training) (bottlenecks m)) y)
               (Classifier_forward training (mb_classifier m))))"
proof (intro conjI)
  show "map (\<lambda>(i, out, s, e). out) MobileNetV3_schedule = [16, 24, 40, 80, 160, 320, 640, 1280]"
    by (simp add: MobileNetV3_schedule_def)
  show "map (\<lambda>(i, out, s, e). e) MobileNetV3_schedule = [1, 2, 2, 1, 2, 1, 1, 1]"
    by (simp add: MobileNetV3_schedule_def)
  show "map (\<lambda>(i, out, s, e). s) MobileNetV3_schedule = [2, 2, 2, 2, 2, 2, 2, 2]"
    by (simp add: MobileNetV3_schedule_def)
  obtain m where m: "MobileNetV3_init K = Inr m"
    using MobileNetV3_init_returns by blast
  show "\<exists>m. MobileNetV3_init K = Inr m
        \<and> mb_stem m = [Conv2d 3 16 3 2 1 1, BatchNorm2d 16, Hswish]
        \<and> length (bottlenecks m) = 8
        \<and> (\<forall>n. n \<le> 8 \<longrightarrow>
             chain (map (InvertedResidualBlock_forward False) (take n (bottlenecks m)))
               (NCHW B 16 112 112)
             = Inr (NCHW B ([16, 16, 24, 40, 80, 160, 320, 640, 1280] ! n)
                           ([112, 56, 28, 14, 7, 4, 2, 1, 1] ! n)
                           ([112, 56, 28, 14, 7, 4, 2, 1, 1] ! n)))
        \<and> mb_classifier m =
             \<lparr> cl_avgpool = AdaptiveAvgPool2d, cl_conv1 = Conv2d 1280 1280 1 1 0 1,
               cl_hswish1 = Hswish, cl_dropout = Dropout, cl_conv2 = Conv2d 1280 K 1 1 0 1 \<rparr>
        \<and> MobileNetV3_forward training m x =
             and_then (Sequential training (mb_stem m) x) (\<lambda>y.
             and_then (chain (map (InvertedResidualBlock_forward training) (bottlenecks m)) y)
               (Classifier_forward training (mb_classifier m)))"
  proof (intro exI [of _ m] conjI allI impI)
    show "MobileNetV3_init K = Inr m" by (rule m)
    from MobileNetV3_init_eq [OF m]
    show "mb_stem m = [Conv2d 3 16 3 2 1 1, BatchNorm2d 16, Hswish]"
      and "length (bottlenecks m) = 8"
      and "mb_classifier m =
             \<lparr> cl_avgpool = AdaptiveAvgPool2d, cl_conv1 = Conv2d 1280 1280 1 1 0 1,
               cl_hswish1 = Hswish, cl_dropout = Dropout, cl_conv2 = Conv2d 1280 K 1 1 0 1 \<rparr>"
      by simp_all
    show "MobileNetV3_forward training m x =
             and_then (Sequential training (mb_stem m) x) (\<lambda>y.
             and_then (chain (map (InvertedResidualBlock_forward training) (bottlenecks m)) y)
               (Classifier_forward training (mb_classifier m)))"
      unfolding MobileNetV3_forward_def by (rule chain_three)
  next
    fix n :: nat
    assume "n \<le> 8"
    with m show "chain (map (InvertedResidualBlock_forward False) (take n (bottlenecks m)))
               (NCHW B 16 112 112)
             = Inr (NCHW B ([16, 16, 24, 40, 80, 160, 320, 640, 1280] ! n)
                           ([112, 56, 28, 14, 7, 4, 2, 1, 1] ! n)
                           ([112, 56, 28, 14, 7, 4, 2, 1, 1] ! n))"
      by (rule MobileNetV3_trace)
  qed
qed

theorem MobileNetV3_assembly_witness:
  "\<exists>m. MobileNetV3_init 10 = Inr m
     \<and> chain (map (InvertedResidualBlock_forward False) (take 8 (bottlenecks m)))
          (NCHW 1 16 112 112) = Inr (NCHW 1 1280 1 1)"
  using MobileNetV3_assembly [where K = 10 and B = 1 and training = False
      and x = "NCHW 1 3 224 224"]
proof (elim conjE exE)
  fix m
  assume m: "MobileNetV3_init 10 = Inr m"
    and t: "\<forall>n. n \<le> 8 \<longrightarrow>
             chain (map (InvertedResidualBlock_forward False) (take n (bottlenecks m)))
               (NCHW 1 16 112 112)
             = Inr (NCHW 1 ([16, 16, 24, 40, 80, 160, 320, 640, 1280] ! n)
                           ([112, 56, 28, 14, 7, 4, 2, 1, 1] ! n)
                           ([112, 56, 28, 14, 7, 4, 2, 1, 1] ! n))"
  have "(8::nat) \<le> 8" by simp
  with t have "chain (map (InvertedResidualBlock_forward False) (take 8 (bottlenecks m)))
               (NCHW 1 16 112 112)
             = Inr (NCHW 1 ([16, 16, 24, 40, 80, 160, 320, 640, 1280] ! 8)
                           ([112, 56, 28, 14, 7, 4, 2, 1, 1] ! 8)
                           ([112, 56, 28, 14, 7, 4, 2, 1, 1] ! 8))"
    by blast
  then have "chain (map (InvertedResidualBlock_forward False) (take 8 (bottlenecks m)))
               (NCHW 1 16 112 112) = Inr (NCHW 1 1280 1 1)"
    by simp
  with m show ?thesis by blast
qed

text \<open>
  The claim as stated has two blocks of stride 1; the code has none.
\<close>

theorem MobileNetV3_no_stride_1_block:
  "length (filter (\<lambda>(i, out, s, e). s = 1) MobileNetV3_schedule) = 0
   \<and> length (filter (\<lambda>(i, out, s, e). s = 2) MobileNetV3_schedule) = 8
   \<and> length (filter (\<lambda>(i, out, s, e). s = 1) MobileNetV3_schedule) \<noteq> 2"
  by (simp add: MobileNetV3_schedule_def)

subsection \<open>The Squeeze-Excitation gate\<close>





lemma SqueezeExcitation_forward_channel_mismatch:
  "c \<noteq> in_channels \<Longrightarrow>
   \<exists>e. SqueezeExcitation_forward training (SqueezeExcitation_init in_channels r) (NCHW b c h w) = Inl e"
  by (simp add: SqueezeExcitation_forward_def SqueezeExcitation_init_def Sequential_def conv_output_size_def)




subsection \<open>The training script without its TRAINED option\<close>

lemma step_pure_Inl [simp]: "step (pure (Inl e)) f = ([], Inl e)"
  by (simp add: step_def pure_def)

lemma step_pure_Inr [simp]: "step (pure (Inr v)) f = f v"
  by (simp add: step_def pure_def)

lemma step_emit_Inl [simp]: "step (emit ev (Inl e)) f = ([], Inl e)"
  by (simp add: step_def emit_def)

lemma step_emit_Inr [simp]: "step (emit ev (Inr v)) f = (ev # fst (f v), snd (f v))"
  by (simp add: step_def emit_def)

lemma trained_flag_default [simp]:
  "trained_flag (PyBool False) = Inl (Exception ''Wrong Argument --TRAINED, True or False.'')"
  by (simp add: trained_flag_def py_eq_str_def)

lemma trained_flag_Inr:
  "trained_flag v = Inr t \<Longrightarrow> v = PyStr ''True'' \<or> v = PyStr ''False''"
  by (auto simp add: trained_flag_def py_eq_str_def split: if_splits)

text \<open>
  Without \<^verbatim>\<open>--TRAINED\<close> the run ends at the first exception on the way to the check of
  the flag, and at that check if it gets there.
\<close>

lemma main_without_TRAINED:
  "main ext (parse_args model None epochs batch_size) =
     (case py_int (case epochs of None \<Rightarrow> PyNone | Some s \<Rightarrow> PyStr s) of
        Inl e \<Rightarrow> ([], Inl e)
      | Inr n \<Rightarrow>
     (case py_int (case batch_size of None \<Rightarrow> PyInt 8 | Some s \<Rightarrow> PyStr s) of
        Inl e \<Rightarrow> ([], Inl e)
      | Inr bs \<Rightarrow>
     (case create_dataloaders ext bs of
        Inl e \<Rightarrow> ([], Inl e)
      | Inr class_names \<Rightarrow>
     (case model of
        None \<Rightarrow> ([CreatedDataloaders bs], Inl (AttributeError ''strip''))
      | Some s \<Rightarrow>
     (case select_model (py_lower (py_strip s)) (length class_names) of
        Inl e \<Rightarrow> ([CreatedDataloaders bs], Inl e)
      | Inr built \<Rightarrow>
          ([CreatedDataloaders bs, BuiltModel (snd built)],
           Inl (Exception ''Wrong Argument --TRAINED, True or False.'')))))))"
  by (simp add: main_def parse_args_def Let_def split: sum.splits option.splits)

lemma main_proceeds:
  assumes "Trained nm n \<in> set (fst (main ext args)) \<or> snd (main ext args) = Inr ()"
  shows "\<exists>t. trained_flag (TRAINED args) = Inr t"
proof (rule ccontr)
  assume "\<not> (\<exists>t. trained_flag (TRAINED args) = Inr t)"
  then obtain e where e: "trained_flag (TRAINED args) = Inl e"
    by (cases "trained_flag (TRAINED args)") auto
  have "Trained nm n \<notin> set (fst (main ext args)) \<and> snd (main ext args) \<noteq> Inr ()"
    by (auto simp add: main_def Let_def e step_def pure_def emit_def
        split: sum.splits pyval.splits)
  with assms show False by blast
qed

lemma py_int_5: "py_int (PyStr ''5'') = Inr 5"
  by code_simp

lemma lower_strip_vgg19: "py_lower (py_strip ''vgg19'') = ''vgg19''"
  by code_simp

lemma lower_strip_VGG19: "py_lower (py_strip '' VGG19 '') = ''vgg19''"
  by code_simp

lemma select_model_vgg19:
  "select_model ''vgg19'' n = Inr (VGG19_model (VGG19_init n 3 1 1), ''VGG19'')"
  by (simp add: select_model_def model_builder_attr_def module_globals_def)

lemma select_model_squeezenet:
  "select_model ''squeezenet'' n = Inl (AttributeError ''ShuffleNetV2'')"
  by (simp add: select_model_def model_builder_attr_def module_globals_def)

text \<open>
  Claim C10 (as amended).  A run of \<^verbatim>\<open>train.py\<close> without \<^verbatim>\<open>--TRAINED\<close> always ends in
  an exception, having at most created the data loaders and built the model: no checkpoint
  is loaded, nothing is trained or saved.  If the statements before the check succeed
  (EPOCHS and BATCH_SIZE convert, the data loaders are created, the model is selected and
  built), the exception is the one for the wrong \<^verbatim>\<open>--TRAINED\<close> argument, raised after the
  model was built.  A run that trains or completes was given \<^verbatim>\<open>--TRAINED\<close> as the string
  True or the string False.
\<close>

theorem missing_TRAINED_stops_before_training:
  "(\<exists>e. snd (main ext (parse_args model None epochs batch_size)) = Inl e)
   \<and> (\<forall>ev \<in> set (fst (main ext (parse_args model None epochs batch_size))).
         (\<exists>n. ev = CreatedDataloaders n) \<or> (\<exists>name. ev = BuiltModel name))
   \<and> (\<forall>n bs class_names s built.
         py_int (EPOCHS (parse_args model None epochs batch_size)) = Inr n
         \<and> py_int (BATCH_SIZE (parse_args model None epochs batch_size)) = Inr bs
         \<and> create_dataloaders ext bs = Inr class_names
         \<and> MODEL (parse_args model None epochs batch_size) = PyStr s
         \<and> select_model (py_lower (py_strip s)) (length class_names) = Inr built
         \<longrightarrow> main ext (parse_args model None epochs batch_size)
             = ([CreatedDataloaders bs, BuiltModel (snd built)],
                Inl (Exception ''Wrong Argument --TRAINED, True or False.'')))
   \<and> (\<forall>trained name n.
         Trained name n \<in> set (fst (main ext (parse_args model trained epochs batch_size)))
         \<or> snd (main ext (parse_args model trained epochs batch_size)) = Inr ()
         \<longrightarrow> trained = Some ''True'' \<or> trained = Some ''False'')"
proof (intro conjI allI ballI impI)
  show "\<exists>e. snd (main ext (parse_args model None epochs batch_size)) = Inl e"
    by (simp add: main_without_TRAINED split: sum.splits option.splits)
next
  fix ev
  assume "ev \<in> set (fst (main ext (parse_args model None epochs batch_size)))"
  then show "(\<exists>n. ev = CreatedDataloaders n) \<or> (\<exists>name. ev = BuiltModel name)"
    by (auto simp add: main_without_TRAINED split: sum.splits option.splits)
next
  fix n bs class_names s built
  assume "py_int (EPOCHS (parse_args model None epochs batch_size)) = Inr n
         \<and> py_int (BATCH_SIZE (parse_args model None epochs batch_size)) = Inr bs
         \<and> create_dataloaders ext bs = Inr class_names
         \<and> MODEL (parse_args model None epochs batch_size) = PyStr s
         \<and> select_model (py_lower (py_strip s)) (length class_names) = Inr built"
  then show "main ext (parse_args model None epochs batch_size)
             = ([CreatedDataloaders bs, BuiltModel (snd built)],
                Inl (Exception ''Wrong Argument --TRAINED, True or False.''))"
    unfolding main_without_TRAINED
    by (auto simp add: parse_args_def split: option.splits)
next
  fix trained name n
  assume "Trained name n \<in> set (fst (main ext (parse_args model trained epochs batch_size)))
         \<or> snd (main ext (parse_args model trained epochs batch_size)) = Inr ()"
  then obtain t where "trained_flag (TRAINED (parse_args model trained epochs batch_size)) = Inr t"
    using main_proceeds by blast
  from trained_flag_Inr [OF this]
  show "trained = Some ''True'' \<or> trained = Some ''False''"
    by (auto simp add: parse_args_def split: option.splits)
qed

text \<open>
  The claim as stated fails twice: with \<^verbatim>\<open>--MODEL vgg19 --EPOCHS 5\<close> the VGG19 model is
  built before the exception for \<^verbatim>\<open>--TRAINED\<close> is raised, and with no option at all the
  run ends earlier, in the TypeError of \<^verbatim>\<open>int(None)\<close>.
\<close>

theorem model_built_before_TRAINED_check:
  "main \<lparr> create_dataloaders = (\<lambda>batch_size. Inr [''healthy'', ''rust'']),
          load_model = (\<lambda>file. Inr ()), load_data = (\<lambda>name. Inr ()),
          train = (\<lambda>name epochs. Inr ()),
          save_model = (\<lambda>file. Inr ()), save_data = (\<lambda>name. Inr ()) \<rparr>
        (parse_args (Some ''vgg19'') None (Some ''5'') None)
     = ([CreatedDataloaders 8, BuiltModel ''VGG19''],
        Inl (Exception ''Wrong Argument --TRAINED, True or False.''))
   \<and> main \<lparr> create_dataloaders = (\<lambda>batch_size. Inr [''healthy'', ''rust'']),
          load_model = (\<lambda>file. Inr ()), load_data = (\<lambda>name. Inr ()),
          train = (\<lambda>name epochs. Inr ()),
          save_model = (\<lambda>file. Inr ()), save_data = (\<lambda>name. Inr ()) \<rparr>
        (parse_args None None None None)
     = ([], Inl (TypeError ''int() argument must be a string, a bytes-like object or a real number, not NoneType''))"
proof -
  have "py_int PyNone = Inl (TypeError ''int() argument must be a string, a bytes-like object or a real number, not NoneType'')"
    by (simp add: py_int_def)
  moreover have "py_int (PyInt 8) = Inr 8"
    by (simp add: py_int_def)
  ultimately show ?thesis
    by (simp add: main_without_TRAINED py_int_5 lower_strip_vgg19 select_model_vgg19)
qed

theorem missing_TRAINED_stops_before_training_witness:
  "main \<lparr> create_dataloaders = (\<lambda>batch_size. Inr [''healthy'', ''rust'']),
          load_model = (\<lambda>file. Inr ()), load_data = (\<lambda>name. Inr ()),
          train = (\<lambda>name epochs. Inr ()),
          save_model = (\<lambda>file. Inr ()), save_data = (\<lambda>name. Inr ()) \<rparr>
        (parse_args (Some '' VGG19 '') None (Some ''5'') None)
     = ([CreatedDataloaders 8, BuiltModel ''VGG19''],
        Inl (Exception ''Wrong Argument --TRAINED, True or False.''))"
proof -
  let ?ext = "\<lparr> create_dataloaders = (\<lambda>batch_size. Inr [''healthy'', ''rust'']),
          load_model = (\<lambda>file. Inr ()), load_data = (\<lambda>name. Inr ()),
          train = (\<lambda>name epochs. Inr ()),
          save_model = (\<lambda>file. Inr ()), save_data = (\<lambda>name. Inr ()) \<rparr>"
  let ?args = "parse_args (Some '' VGG19 '') None (Some ''5'') None"
  have h1: "py_int (EPOCHS ?args) = Inr 5"
    by (simp add: parse_args_def py_int_5)
  have h2: "py_int (BATCH_SIZE ?args) = Inr 8"
    by (simp add: parse_args_def py_int_def)
  have h3: "create_dataloaders ?ext 8 = Inr [''healthy'', ''rust'']"
    by simp
  have h4: "MODEL ?args = PyStr '' VGG19 ''"
    by (simp add: parse_args_def)
  have h5: "select_model (py_lower (py_strip '' VGG19 '')) (length [''healthy'', ''rust''])
             = Inr (VGG19_model (VGG19_init (length [''healthy'', ''rust'']) 3 1 1), ''VGG19'')"
    by (simp only: lower_strip_VGG19 select_model_vgg19)
  note h = conjI [OF h1 conjI [OF h2 conjI [OF h3 conjI [OF h4 h5]]]]
  from missing_TRAINED_stops_before_training [where ext = ?ext and model = "Some '' VGG19 ''"
      and epochs = "Some ''5''" and batch_size = None]
  have "\<forall>n bs class_names s built.
         py_int (EPOCHS ?args) = Inr n
         \<and> py_int (BATCH_SIZE ?args) = Inr bs
         \<and> create_dataloaders ?ext bs = Inr class_names
         \<and> MODEL ?args = PyStr s
         \<and> select_model (py_lower (py_strip s)) (length class_names) = Inr built
         \<longrightarrow> main ?ext ?args
             = ([CreatedDataloaders bs, BuiltModel (snd built)],
                Inl (Exception ''Wrong Argument --TRAINED, True or False.''))"
    by (elim conjE)
  from this [rule_format, OF h] show ?thesis by simp
qed


end
